theory Spec2Isabelle
  imports Main
begin

section \<open>The game view controller (game.js)\<close>

subsection \<open>Text and truthiness\<close>

text \<open>
  The script writes Russian captions into the page. A caption is modelled by one
  constructor per literal of the source; \<open>PageMarkup\<close> is the text the page's markup holds
  before the script writes anything.
  \<^item> \<open>Waiting\<close>: the literal of case 'waiting' (waiting for the opponent);
  \<^item> \<open>WhiteToMove\<close>, \<open>BlackToMove\<close>: the two literals of case 'active';
  \<^item> \<open>MateBlackWon\<close>, \<open>MateWhiteWon\<close>: the template of case 'checkmate', with the
    winner it names;
  \<^item> \<open>DrawCaption\<close>, \<open>StalemateCaption\<close>, \<open>OpponentLeft\<close>: cases 'draw', 'stalemate',
    'disconnected';
  \<^item> \<open>You\<close>, \<open>TheirMove\<close>, \<open>Awaiting\<close>: the three literals of updatePlayerStatus.
\<close>

datatype caption =
    PageMarkup
  | Waiting | WhiteToMove | BlackToMove
  | MateBlackWon | MateWhiteWon
  | DrawCaption | StalemateCaption | OpponentLeft
  | You | TheirMove | Awaiting

text \<open>JavaScript truthiness of a value that is a string, null or undefined.\<close>

fun truthy :: "string option \<Rightarrow> bool" where
  "truthy None = False"
| "truthy (Some s) = (s \<noteq> [])"

text \<open>A non-negative integer inside a template literal: its decimal digits.\<close>

function decimal :: "nat \<Rightarrow> string" where
  "decimal n =
     (if n < 10 then [''0123456789'' ! n]
      else decimal (n div 10) @ [''0123456789'' ! (n mod 10)])"
  by pat_completeness auto
termination
  by (relation "measure (\<lambda>n. n)") auto

declare decimal.simps [simp del]

subsection \<open>The rules engine, taken as a parameter\<close>

text \<open>
  The chess library is not part of the repository. The controller uses one object of it
  (\<open>game\<close>), whose state is the type \<open>'g\<close>; each method the script calls is a field.
  \<open>e_move\<close> is the library's own \<open>move\<close> (the script wraps it, see \<open>game_move\<close>). A
  move that is made is returned with the new state (\<open>Inr (Some (m, g'))\<close>). A move that
  is not made leaves the object as it was, and the library either returns a falsy value
  (\<open>Inr None\<close>: the releases before 1.0) or throws an error (\<open>Inl InvalidMove\<close>: the 1.x
  releases, whose method names the script uses). \<open>e_load\<close> gives the state after a
  load that returns. \<open>e_board g r f\<close> is \<open>game.board()[r][f]\<close>.
\<close>

datatype js_error = InvalidMove

record piece =
  p_color :: char
  p_type :: char

record move_rec =
  m_san :: string
  m_from :: string
  m_to :: string

record 'g engine =
  e_new :: "'g"
  e_load :: "string \<Rightarrow> 'g \<Rightarrow> 'g"
  e_move :: "string \<Rightarrow> string \<Rightarrow> char \<Rightarrow> 'g \<Rightarrow> js_error + (move_rec \<times> 'g) option"
  e_get :: "'g \<Rightarrow> string \<Rightarrow> piece option"
  e_turn :: "'g \<Rightarrow> char"
  e_fen :: "'g \<Rightarrow> string"
  e_history :: "'g \<Rightarrow> move_rec list"
  e_moves :: "'g \<Rightarrow> string \<Rightarrow> move_rec list"
  e_board :: "'g \<Rightarrow> nat \<Rightarrow> nat \<Rightarrow> piece option"
  e_inCheck :: "'g \<Rightarrow> bool"
  e_isGameOver :: "'g \<Rightarrow> bool"
  e_isCheckmate :: "'g \<Rightarrow> bool"
  e_isDraw :: "'g \<Rightarrow> bool"
  e_isStalemate :: "'g \<Rightarrow> bool"

subsection \<open>The page and the module's variables\<close>

text \<open>
  A square of the board as renderBoard builds it: its \<open>data-square\<close>, \<open>data-file\<close> and
  \<open>data-rank\<close>, its class list, and the class name of the piece element it holds.
\<close>

record sq_elem =
  sq_square :: string
  sq_file :: char
  sq_rank :: nat
  sq_classes :: "string list"
  sq_piece :: "string option"

datatype out_event =
    JoinGame string
  | MakeMove string string string

text \<open>
  \<open>gameId\<close>, \<open>game\<close>, \<open>playerColor\<close> and \<open>selectedSquare\<close> are the module's variables;
  \<open>board\<close>, \<open>gameStatus\<close>, \<open>whiteStatus\<close>, \<open>blackStatus\<close> and \<open>movesList\<close> are the
  page's elements of these ids (the children of \<open>#board\<close>, the text of the three status
  elements, the text of each entry of \<open>#movesList\<close>); \<open>emitted\<close> is what the script has
  sent over the socket, oldest first (\<open>MakeMove game_id move fen\<close>); \<open>uncaught\<close> holds
  the errors that no handler caught, oldest first: a handler stops where an error is
  thrown, the browser reports the error, and the page goes on as the handler left it.
\<close>

record 'g view =
  gameId :: string
  game :: "'g"
  playerColor :: "string option"
  selectedSquare :: "string option"
  board :: "sq_elem list"
  gameStatus :: caption
  whiteStatus :: caption
  blackStatus :: caption
  movesList :: "string list"
  emitted :: "out_event list"
  uncaught :: "js_error list"

text \<open>The state once the script has loaded: lines 1 to 9.\<close>

definition initial :: "'g engine \<Rightarrow> string \<Rightarrow> 'g view" where
  "initial E gid =
     \<lparr> gameId = gid, game = e_new E, playerColor = None, selectedSquare = None,
       board = [], gameStatus = PageMarkup, whiteStatus = PageMarkup,
       blackStatus = PageMarkup, movesList = [], emitted = [JoinGame gid],
       uncaught = [] \<rparr>"

subsection \<open>Status lines\<close>

definition updateGameStatus :: "'g engine \<Rightarrow> string \<Rightarrow> 'g view \<Rightarrow> 'g view" where
  "updateGameStatus E status s =
     (if status = ''waiting'' then s\<lparr>gameStatus := Waiting\<rparr>
      else if status = ''active'' then
        s\<lparr>gameStatus := (if e_turn E (game s) = CHR ''w'' then WhiteToMove else BlackToMove)\<rparr>
      else if status = ''checkmate'' then
        s\<lparr>gameStatus := (if e_turn E (game s) = CHR ''w'' then MateBlackWon else MateWhiteWon)\<rparr>
      else if status = ''draw'' then s\<lparr>gameStatus := DrawCaption\<rparr>
      else if status = ''stalemate'' then s\<lparr>gameStatus := StalemateCaption\<rparr>
      else if status = ''disconnected'' then s\<lparr>gameStatus := OpponentLeft\<rparr>
      else s)"

definition checkGameStatus :: "'g engine \<Rightarrow> 'g view \<Rightarrow> 'g view" where
  "checkGameStatus E s =
     (if e_isCheckmate E (game s) then updateGameStatus E ''checkmate'' s
      else if e_isDraw E (game s) then updateGameStatus E ''draw'' s
      else if e_isStalemate E (game s) then updateGameStatus E ''stalemate'' s
      else s)"

definition updatePlayerStatus :: "'g engine \<Rightarrow> 'g view \<Rightarrow> 'g view" where
  "updatePlayerStatus E s =
     (if \<not> truthy (playerColor s) then s
      else if playerColor s = Some ''white'' then
        (let s1 = s\<lparr>whiteStatus := You\<rparr> in
         if e_turn E (game s1) = CHR ''b'' then s1\<lparr>blackStatus := TheirMove\<rparr>
         else if e_turn E (game s1) = CHR ''w'' then s1\<lparr>blackStatus := Awaiting\<rparr>
         else s1)
      else
        (let s1 = s\<lparr>blackStatus := You\<rparr> in
         if e_turn E (game s1) = CHR ''w'' then s1\<lparr>whiteStatus := TheirMove\<rparr>
         else if e_turn E (game s1) = CHR ''b'' then s1\<lparr>whiteStatus := Awaiting\<rparr>
         else s1))"

subsection \<open>The move list\<close>

text \<open>
  The loop of updateMovesList over \<open>game.history()\<close>, from index \<open>i\<close> on: one entry per
  pair of moves. \<open>history[i + 1] || ''\<close> is the empty string past the end.
\<close>

function movesLoop :: "string list \<Rightarrow> nat \<Rightarrow> string list" where
  "movesLoop history i =
     (if i < length history then
        (let moveNumber = i div 2 + 1;
             whiteMove = history ! i;
             blackMove = (if i + 1 < length history then history ! (i + 1) else [])
         in (decimal moveNumber @ ''. '' @ whiteMove @ '' '' @ blackMove)
              # movesLoop history (i + 2))
      else [])"
  by pat_completeness auto
termination
  by (relation "measure (\<lambda>(h, i). length h - i)") auto

declare movesLoop.simps [simp del]

definition updateMovesList :: "'g engine \<Rightarrow> 'g view \<Rightarrow> 'g view" where
  "updateMovesList E s = s\<lparr>movesList := movesLoop (map m_san (e_history E (game s))) 0\<rparr>"

subsection \<open>Rendering the board\<close>

text \<open>\<open>classList.add\<close>: a class list holds a name once.\<close>

definition classList_add :: "string \<Rightarrow> string list \<Rightarrow> string list" where
  "classList_add c cs = (if c \<in> set cs then cs else cs @ [c])"

text \<open>
  \<open>document.querySelector\<close> with a \<open>data-square\<close> selector, followed by \<open>classList.add\<close>
  when an element was found: the first square of that name gets the class.
\<close>

fun addClassAt :: "string \<Rightarrow> string \<Rightarrow> sq_elem list \<Rightarrow> sq_elem list" where
  "addClassAt sq c [] = []"
| "addClassAt sq c (e # es) =
     (if sq_square e = sq then e\<lparr>sq_classes := classList_add c (sq_classes e)\<rparr> # es
      else e # addClassAt sq c es)"

definition isFlipped :: "'g view \<Rightarrow> bool" where
  "isFlipped s = (playerColor s = Some ''black'')"

definition ranks :: "'g view \<Rightarrow> nat list" where
  "ranks s = (if isFlipped s then rev [1, 2, 3, 4, 5, 6, 7, 8] else [1, 2, 3, 4, 5, 6, 7, 8])"

definition files :: "'g view \<Rightarrow> char list" where
  "files s = (if isFlipped s then rev ''hgfedcba'' else ''abcdefgh'')"

definition squareName :: "char \<Rightarrow> nat \<Rightarrow> string" where
  "squareName file rank = file # decimal rank"

definition squareElement :: "'g engine \<Rightarrow> 'g view \<Rightarrow> nat \<Rightarrow> char \<Rightarrow> sq_elem" where
  "squareElement E s rank file =
     (let square = squareName file rank;
          isLight = ((int rank + int (of_char file) - 96) mod 2 = 0);
          cls = [''square'', if isLight then ''light'' else ''dark''];
          cls' = (if selectedSquare s = Some square then classList_add ''selected'' cls else cls)
      in \<lparr> sq_square = square, sq_file = file, sq_rank = rank, sq_classes = cls',
           sq_piece = (case e_get E (game s) square of
                         None \<Rightarrow> None
                       | Some p \<Rightarrow> Some (''piece piece-'' @ [p_color p] @ ''-'' @ [p_type p])) \<rparr>)"

definition highlightLastMove :: "'g engine \<Rightarrow> 'g view \<Rightarrow> 'g view" where
  "highlightLastMove E s =
     (let history = e_history E (game s) in
      if length history > 0 then
        (let lastMove = last history in
         s\<lparr>board := addClassAt (m_to lastMove) ''last-move''
                      (addClassAt (m_from lastMove) ''last-move'' (board s))\<rparr>)
      else s)"

definition checkStep :: "'g engine \<Rightarrow> 'g \<Rightarrow> sq_elem list \<Rightarrow> nat \<times> nat \<Rightarrow> sq_elem list" where
  "checkStep E g b rf =
     (case e_board E g (fst rf) (snd rf) of
        None \<Rightarrow> b
      | Some square \<Rightarrow>
          if p_type square = CHR ''k'' \<and> p_color square = e_turn E g
          then addClassAt (squareName (char_of (97 + snd rf)) (8 - fst rf)) ''check'' b
          else b)"

definition highlightCheck :: "'g engine \<Rightarrow> 'g view \<Rightarrow> 'g view" where
  "highlightCheck E s =
     (if e_inCheck E (game s) then
        s\<lparr>board := foldl (checkStep E (game s)) (board s)
                     (concat (map (\<lambda>rank. map (\<lambda>file. (rank, file)) [0..<8]) [0..<8]))\<rparr>
      else s)"

definition renderBoard :: "'g engine \<Rightarrow> 'g view \<Rightarrow> 'g view" where
  "renderBoard E s =
     highlightCheck E (highlightLastMove E
       (s\<lparr>board := concat (map (\<lambda>rank. map (\<lambda>file. squareElement E s rank file) (files s))
                             (ranks s))\<rparr>))"

definition highlightPossibleMoves :: "'g engine \<Rightarrow> string \<Rightarrow> 'g view \<Rightarrow> 'g view" where
  "highlightPossibleMoves E square s =
     s\<lparr>board := foldl (\<lambda>b move. addClassAt (m_to move) ''possible-move'' b) (board s)
                  (e_moves E (game s) square)\<rparr>"

subsection \<open>Clicks\<close>

text \<open>
  \<open>game.move\<close> as the last lines of the script replace it: the library's move, and on
  success the status lines are refreshed. The wrapper has no \<open>try\<close>: an error of the
  library's move leaves it as it came.
\<close>

definition game_move :: "'g engine \<Rightarrow> string \<Rightarrow> string \<Rightarrow> char \<Rightarrow> 'g view
    \<Rightarrow> js_error + (move_rec option \<times> 'g view)" where
  "game_move E from to promotion s =
     (case e_move E from to promotion (game s) of
        Inl err \<Rightarrow> Inl err
      | Inr None \<Rightarrow> Inr (None, s)
      | Inr (Some (result, g')) \<Rightarrow>
          Inr (Some result,
               updatePlayerStatus E (updateGameStatus E ''active'' (s\<lparr>game := g'\<rparr>))))"

text \<open>Whether \<open>game.get(square)\<close> is a piece of the local player's colour letter.\<close>

definition friendly :: "'g engine \<Rightarrow> 'g view \<Rightarrow> string \<Rightarrow> string \<Rightarrow> bool" where
  "friendly E s color square =
     (case e_get E (game s) square of
        None \<Rightarrow> False
      | Some piece \<Rightarrow> p_color piece = hd color)"

text \<open>
  The click handler. Nothing catches an error of \<open>game.move\<close>: the handler stops at
  the call, before any assignment, and the error is left uncaught.
\<close>

definition handleSquareClick :: "'g engine \<Rightarrow> string \<Rightarrow> 'g view \<Rightarrow> 'g view" where
  "handleSquareClick E square s =
     (case playerColor s of
        None \<Rightarrow> s
      | Some color \<Rightarrow>
          if color = [] then s
          else if e_turn E (game s) \<noteq> hd color then s
          else if e_isGameOver E (game s) then s
          else if truthy (selectedSquare s) then
            (if selectedSquare s = Some square then renderBoard E (s\<lparr>selectedSquare := None\<rparr>)
             else
               (case game_move E (the (selectedSquare s)) square (CHR ''q'') s of
                  Inl err \<Rightarrow> s\<lparr>uncaught := uncaught s @ [err]\<rparr>
                | Inr (Some move, s1) \<Rightarrow>
                    (let s2 = s1\<lparr>emitted := emitted s1 @
                                 [MakeMove (gameId s1) (m_san move) (e_fen E (game s1))]\<rparr>;
                         s3 = s2\<lparr>selectedSquare := None\<rparr>;
                         s4 = renderBoard E s3;
                         s5 = updateMovesList E s4;
                         s6 = checkGameStatus E s5;
                         s7 = updateGameStatus E ''active'' s6
                     in updatePlayerStatus E s7)
                | Inr (None, s1) \<Rightarrow>
                    (let s2 = s1\<lparr>selectedSquare :=
                                 (if friendly E s color square then Some square else None)\<rparr>;
                         s3 = renderBoard E s2
                     in if truthy (selectedSquare s3)
                        then highlightPossibleMoves E (the (selectedSquare s3)) s3
                        else s3)))
          else if friendly E s color square then
            highlightPossibleMoves E square (renderBoard E (s\<lparr>selectedSquare := Some square\<rparr>))
          else s)"

subsection \<open>Server pushes and the resign button\<close>

definition game_joined :: "'g engine \<Rightarrow> string option \<Rightarrow> 'g view \<Rightarrow> 'g view" where
  "game_joined E color s = updatePlayerStatus E (s\<lparr>playerColor := color\<rparr>)"

record game_info_data =
  d_fen :: "string option"
  d_color :: "string option"
  d_status :: "string option"

definition game_info :: "'g engine \<Rightarrow> game_info_data \<Rightarrow> 'g view \<Rightarrow> 'g view" where
  "game_info E d s =
     (let s1 = (if truthy (d_fen d) then s\<lparr>game := e_load E (the (d_fen d)) (game s)\<rparr> else s);
          s2 = (if truthy (d_color d) then s1\<lparr>playerColor := d_color d\<rparr> else s1);
          s3 = (if truthy (d_status d) then updateGameStatus E (the (d_status d)) s2 else s2)
      in updatePlayerStatus E (renderBoard E s3))"

definition move_made :: "'g engine \<Rightarrow> string \<Rightarrow> 'g view \<Rightarrow> 'g view" where
  "move_made E fen s =
     checkGameStatus E (updateMovesList E (renderBoard E (s\<lparr>game := e_load E fen (game s)\<rparr>)))"

definition player_joined :: "'g engine \<Rightarrow> 'g view \<Rightarrow> 'g view" where
  "player_joined E s = updatePlayerStatus E (updateGameStatus E ''active'' s)"

definition player_disconnected :: "'g engine \<Rightarrow> 'g view \<Rightarrow> 'g view" where
  "player_disconnected E s = updateGameStatus E ''disconnected'' s"

text \<open>The resign button; \<open>confirmed\<close> is what the confirmation prompt returned.\<close>

definition resignClick :: "'g engine \<Rightarrow> bool \<Rightarrow> 'g view \<Rightarrow> 'g view" where
  "resignClick E confirmed s = (if confirmed then updateGameStatus E ''resigned'' s else s)"

section \<open>The lobby controller (the second script)\<close>

text \<open>
  Text is a list of bytes, UTF-8. The two Russian literals of the script are written
  out byte by byte: the sentence above the link ("game created, share the link:") and
  the alert of an empty identifier ("enter the game's id").
\<close>

definition created_text :: string where
  "created_text = map char_of
     [0xD0, 0x98, 0xD0, 0xB3, 0xD1, 0x80, 0xD0, 0xB0, 0x20, 0xD1, 0x81, 0xD0, 0xBE, 0xD0,
      0xB7, 0xD0, 0xB4, 0xD0, 0xB0, 0xD0, 0xBD, 0xD0, 0xB0, 0x21, 0x20, 0xD0, 0x9F, 0xD0,
      0xBE, 0xD0, 0xB4, 0xD0, 0xB5, 0xD0, 0xBB, 0xD0, 0xB8, 0xD1, 0x82, 0xD0, 0xB5, 0xD1,
      0x81, 0xD1, 0x8C, 0x20, 0xD1, 0x81, 0xD1, 0x81, 0xD1, 0x8B, 0xD0, 0xBB, 0xD0, 0xBA,
      0xD0, 0xBE, 0xD0, 0xB9, 0x3A :: nat]"

definition enter_id_text :: string where
  "enter_id_text = map char_of
     [0xD0, 0x92, 0xD0, 0xB2, 0xD0, 0xB5, 0xD0, 0xB4, 0xD0, 0xB8, 0xD1, 0x82, 0xD0, 0xB5,
      0x20, 0x49, 0x44, 0x20, 0xD0, 0xB8, 0xD0, 0xB3, 0xD1, 0x80, 0xD1, 0x8B :: nat]"

text \<open>
  \<open>String.prototype.trim\<close> removes white space and line terminators from both ends.
  These are their UTF-8 encodings: U+0009 to U+000D, U+0020, U+00A0, U+1680, U+2000 to
  U+200A, U+2028, U+2029, U+202F, U+205F, U+3000 and U+FEFF.
\<close>

definition whitespace :: "string list" where
  "whitespace = map (map char_of)
     [[0x09], [0x0A], [0x0B], [0x0C], [0x0D], [0x20], [0xC2, 0xA0], [0xE1, 0x9A, 0x80],
      [0xE2, 0x80, 0x80], [0xE2, 0x80, 0x81], [0xE2, 0x80, 0x82], [0xE2, 0x80, 0x83],
      [0xE2, 0x80, 0x84], [0xE2, 0x80, 0x85], [0xE2, 0x80, 0x86], [0xE2, 0x80, 0x87],
      [0xE2, 0x80, 0x88], [0xE2, 0x80, 0x89], [0xE2, 0x80, 0x8A], [0xE2, 0x80, 0xA8],
      [0xE2, 0x80, 0xA9], [0xE2, 0x80, 0xAF], [0xE2, 0x81, 0x9F], [0xE3, 0x80, 0x80],
      [0xEF, 0xBB, 0xBF :: nat]]"

text \<open>The length of the white space character \<open>s\<close> starts with, 0 when it starts with none.\<close>

definition leading :: "string list \<Rightarrow> string \<Rightarrow> nat" where
  "leading ws s =
     (case List.find (\<lambda>w. w \<noteq> [] \<and> take (length w) s = w) ws of
        None \<Rightarrow> 0
      | Some w \<Rightarrow> length w)"

function dropLeading :: "string list \<Rightarrow> string \<Rightarrow> string" where
  "dropLeading ws s =
     (if leading ws s = 0 then s else dropLeading ws (drop (leading ws s) s))"
  by pat_completeness auto
termination
proof (relation "measure (\<lambda>(ws, s). length s)")
  show "wf (measure (\<lambda>(ws, s). length s))" by simp
next
  fix ws :: "string list" and s :: string
  assume n: "leading ws s \<noteq> 0"
  then obtain w where w: "w \<noteq> []" "take (length w) s = w"
    by (auto simp: leading_def find_Some_iff split: option.splits)
  have "s \<noteq> []"
  proof
    assume "s = []"
    with w show False by simp
  qed
  with n show "((ws, drop (leading ws s) s), (ws, s)) \<in> measure (\<lambda>(ws, s). length s)"
    by simp
qed

declare dropLeading.simps [simp del]

definition trim :: "string \<Rightarrow> string" where
  "trim s = rev (dropLeading (map rev whitespace) (rev (dropLeading whitespace s)))"

datatype lobby_event = CreateGame

text \<open>
  What the lobby script reads and writes: \<open>window.location.origin\<close>, the value of the
  input \<open>#gameIdInput\<close>, the \<open>innerHTML\<close> and class list of \<open>#gameLink\<close>, the value last
  assigned to \<open>window.location.href\<close> (none yet: \<open>None\<close>), the pending timers (delay in
  milliseconds, and the address their callback assigns to \<open>window.location.href\<close>), the
  alerts shown and the events sent.
\<close>

record lobby =
  origin :: string
  gameIdInput :: string
  gameLinkHTML :: string
  gameLinkClasses :: "string list"
  href :: "string option"
  timers :: "(nat \<times> string) list"
  alerts :: "string list"
  sent :: "lobby_event list"

definition createGameClick :: "lobby \<Rightarrow> lobby" where
  "createGameClick l = l\<lparr>sent := sent l @ [CreateGame]\<rparr>"

definition joinGameClick :: "lobby \<Rightarrow> lobby" where
  "joinGameClick l =
     (let gameId = trim (gameIdInput l) in
      if gameId \<noteq> [] then l\<lparr>href := Some (''/game/'' @ gameId)\<rparr>
      else l\<lparr>alerts := alerts l @ [enter_id_text]\<rparr>)"

definition gameUrl :: "lobby \<Rightarrow> string \<Rightarrow> string" where
  "gameUrl l game_id = origin l @ ''/game/'' @ game_id"

definition linkMarkup :: "string \<Rightarrow> string" where
  "linkMarkup url =
     [CHR 0x0A] @ ''        <p>'' @ created_text @ ''</p>'' @
     [CHR 0x0A] @ ''        <a href='' @ [CHR 0x22] @ url @ [CHR 0x22] @
       '' target='' @ [CHR 0x22] @ ''_blank'' @ [CHR 0x22] @ ''>'' @ url @ ''</a>'' @
     [CHR 0x0A] @ ''    ''"

definition game_created :: "string \<Rightarrow> lobby \<Rightarrow> lobby" where
  "game_created game_id l =
     (let url = gameUrl l game_id in
      l\<lparr>gameLinkHTML := linkMarkup url,
        gameLinkClasses := removeAll ''hidden'' (gameLinkClasses l),
        timers := timers l @ [(2000, url)]\<rparr>)"

text \<open>A timer of the lobby runs out: its callback assigns its address.\<close>

definition timeout :: "nat \<times> string \<Rightarrow> lobby \<Rightarrow> lobby" where
  "timeout t l = l\<lparr>href := Some (snd t), timers := remove1 t (timers l)\<rparr>"

definition lobby_error :: "string \<Rightarrow> lobby \<Rightarrow> lobby" where
  "lobby_error message l = l\<lparr>alerts := alerts l @ [message]\<rparr>"

section \<open>A fragment of the rules engine\<close>

text \<open>
  To run the controller on concrete positions, the engine's answers are written out for a
  few positions of real games. A game is its position in Forsyth-Edwards notation and the
  moves made since the position was loaded; the board, the side to move and the piece of a
  square are read from the notation, the legal moves and the terminal predicates are
  tabulated for the positions below and empty or false elsewhere.
\<close>

record cgame =
  c_fen :: string
  c_history :: "move_rec list"

fun splitOn :: "char \<Rightarrow> string \<Rightarrow> string list" where
  "splitOn d [] = [[]]"
| "splitOn d (c # cs) =
     (if c = d then [] # splitOn d cs
      else (case splitOn d cs of [] \<Rightarrow> [[c]] | w # ws \<Rightarrow> (c # w) # ws))"

fun fenRow :: "string \<Rightarrow> piece option list" where
  "fenRow [] = []"
| "fenRow (c # cs) =
     (let n = (of_char c :: nat) in
      if 48 \<le> n \<and> n \<le> 57 then replicate (n - 48) None @ fenRow cs
      else if 65 \<le> n \<and> n \<le> 90
        then Some \<lparr>p_color = CHR ''w'', p_type = char_of (n + 32)\<rparr> # fenRow cs
      else Some \<lparr>p_color = CHR ''b'', p_type = c\<rparr> # fenRow cs)"

definition fenBoard :: "string \<Rightarrow> nat \<Rightarrow> nat \<Rightarrow> piece option" where
  "fenBoard fen r f =
     (let rows = map fenRow (splitOn (CHR ''/'') (hd (splitOn (CHR '' '') fen))) in
      if r < length rows \<and> f < length (rows ! r) then rows ! r ! f else None)"

definition fenGet :: "string \<Rightarrow> string \<Rightarrow> piece option" where
  "fenGet fen square =
     (case square of
        [file, rank] \<Rightarrow>
          (let f = (of_char file :: nat); r = (of_char rank :: nat) in
           if 97 \<le> f \<and> f \<le> 104 \<and> 49 \<le> r \<and> r \<le> 56 then fenBoard fen (56 - r) (f - 97)
           else None)
      | _ \<Rightarrow> None)"

definition fenTurn :: "string \<Rightarrow> char" where
  "fenTurn fen =
     (case splitOn (CHR '' '') fen of
        _ # (c # _) # _ \<Rightarrow> c
      | _ \<Rightarrow> CHR ''w'')"

definition fen_start :: string where
  "fen_start = ''rnbqkbnr/pppppppp/8/8/8/8/PPPPPPPP/RNBQKBNR w KQkq - 0 1''"

definition fen_e4 :: string where
  "fen_e4 = ''rnbqkbnr/pppppppp/8/8/4P3/8/PPPP1PPP/RNBQKBNR b KQkq e3 0 1''"

definition fen_e4_e5 :: string where
  "fen_e4_e5 = ''rnbqkbnr/pppp1ppp/8/4p3/4P3/8/PPPP1PPP/RNBQKBNR w KQkq e6 0 2''"

definition fen_f3_e5_g4 :: string where
  "fen_f3_e5_g4 = ''rnbqkbnr/pppp1ppp/8/4p3/6P1/5P2/PPPPP2P/RNBQKBNR b KQkq g3 0 2''"

definition fen_mated :: string where
  "fen_mated = ''rnb1kbnr/pppp1ppp/8/4p3/6Pq/5P2/PPPPP2P/RNBQKBNR w KQkq - 1 3''"

definition fen_stalemate :: string where
  "fen_stalemate = ''7k/5Q2/6K1/8/8/8/8/8 b - - 0 1''"

text \<open>
  The legal moves the fragment knows, as (position, from, to, notation, position after):
  the moves of the pawns on e2 and d2 and of the knight on g1 at the start, of the pawn on
  e7 after 1. e4, of the knight on g1 after 1. e4 e5, and of the queen on d8 after
  1. f3 e5 2. g4.
\<close>

definition moveTable :: "(string \<times> string \<times> string \<times> string \<times> string) list" where
  "moveTable =
     [(fen_start, ''e2'', ''e3'', ''e3'',
         ''rnbqkbnr/pppppppp/8/8/8/4P3/PPPP1PPP/RNBQKBNR b KQkq - 0 1''),
      (fen_start, ''e2'', ''e4'', ''e4'', fen_e4),
      (fen_start, ''d2'', ''d3'', ''d3'',
         ''rnbqkbnr/pppppppp/8/8/8/3P4/PPP1PPPP/RNBQKBNR b KQkq - 0 1''),
      (fen_start, ''d2'', ''d4'', ''d4'',
         ''rnbqkbnr/pppppppp/8/8/3P4/8/PPP1PPPP/RNBQKBNR b KQkq d3 0 1''),
      (fen_start, ''g1'', ''f3'', ''Nf3'',
         ''rnbqkbnr/pppppppp/8/8/8/5N2/PPPPPPPP/RNBQKB1R b KQkq - 1 1''),
      (fen_start, ''g1'', ''h3'', ''Nh3'',
         ''rnbqkbnr/pppppppp/8/8/8/7N/PPPPPPPP/RNBQKB1R b KQkq - 1 1''),
      (fen_e4, ''e7'', ''e6'', ''e6'',
         ''rnbqkbnr/pppp1ppp/4p3/8/4P3/8/PPPP1PPP/RNBQKBNR w KQkq - 0 2''),
      (fen_e4, ''e7'', ''e5'', ''e5'', fen_e4_e5),
      (fen_e4_e5, ''g1'', ''e2'', ''Ne2'',
         ''rnbqkbnr/pppp1ppp/8/4p3/4P3/8/PPPPNPPP/RNBQKB1R b KQkq - 1 2''),
      (fen_e4_e5, ''g1'', ''f3'', ''Nf3'',
         ''rnbqkbnr/pppp1ppp/8/4p3/4P3/5N2/PPPP1PPP/RNBQKB1R b KQkq - 1 2''),
      (fen_e4_e5, ''g1'', ''h3'', ''Nh3'',
         ''rnbqkbnr/pppp1ppp/8/4p3/4P3/7N/PPPP1PPP/RNBQKB1R b KQkq - 1 2''),
      (fen_f3_e5_g4, ''d8'', ''e7'', ''Qe7'',
         ''rnb1kbnr/ppppqppp/8/4p3/6P1/5P2/PPPPP2P/RNBQKBNR w KQkq - 1 3''),
      (fen_f3_e5_g4, ''d8'', ''f6'', ''Qf6'',
         ''rnb1kbnr/pppp1ppp/5q2/4p3/6P1/5P2/PPPPP2P/RNBQKBNR w KQkq - 1 3''),
      (fen_f3_e5_g4, ''d8'', ''g5'', ''Qg5'',
         ''rnb1kbnr/pppp1ppp/8/4p1q1/6P1/5P2/PPPPP2P/RNBQKBNR w KQkq - 1 3''),
      (fen_f3_e5_g4, ''d8'', ''h4'', ''Qh4#'', fen_mated)]"

definition tableMoves :: "string \<Rightarrow> string \<Rightarrow> (move_rec \<times> string) list" where
  "tableMoves fen from =
     map (\<lambda>(p, a, b, san, p'). (\<lparr>m_san = san, m_from = a, m_to = b\<rparr>, p'))
       (filter (\<lambda>(p, a, b, san, p'). p = fen \<and> a = from) moveTable)"

text \<open>A move that is not in the table throws, as an illegal move does in the 1.x releases.\<close>

definition c_move :: "string \<Rightarrow> string \<Rightarrow> char \<Rightarrow> cgame
    \<Rightarrow> js_error + (move_rec \<times> cgame) option" where
  "c_move from to promotion g =
     (case List.find (\<lambda>(m, p'). m_to m = to) (tableMoves (c_fen g) from) of
        None \<Rightarrow> Inl InvalidMove
      | Some (m, p') \<Rightarrow> Inr (Some (m, \<lparr>c_fen = p', c_history = c_history g @ [m]\<rparr>)))"

text \<open>Loading a position forgets the moves made before, as the library does.\<close>

definition chess :: "cgame engine" where
  "chess =
     \<lparr> e_new = \<lparr>c_fen = fen_start, c_history = []\<rparr>,
       e_load = (\<lambda>fen g. \<lparr>c_fen = fen, c_history = []\<rparr>),
       e_move = c_move,
       e_get = (\<lambda>g. fenGet (c_fen g)),
       e_turn = (\<lambda>g. fenTurn (c_fen g)),
       e_fen = c_fen,
       e_history = c_history,
       e_moves = (\<lambda>g square. map fst (tableMoves (c_fen g) square)),
       e_board = (\<lambda>g. fenBoard (c_fen g)),
       e_inCheck = (\<lambda>g. c_fen g = fen_mated),
       e_isGameOver = (\<lambda>g. c_fen g = fen_mated \<or> c_fen g = fen_stalemate),
       e_isCheckmate = (\<lambda>g. c_fen g = fen_mated),
       e_isDraw = (\<lambda>g. c_fen g = fen_stalemate),
       e_isStalemate = (\<lambda>g. c_fen g = fen_stalemate) \<rparr>"

section \<open>Predicates and concrete states used in the statements\<close>

text \<open>
  A click is processed when none of the three guards at the top of handleSquareClick
  returns: a colour is assigned, it is that colour's turn and the game is not over.
\<close>

definition clickable :: "'g engine \<Rightarrow> 'g view \<Rightarrow> bool" where
  "clickable E s =
     (case playerColor s of
        None \<Rightarrow> False
      | Some color \<Rightarrow> color \<noteq> [] \<and> e_turn E (game s) = hd color \<and> \<not> e_isGameOver E (game s))"

text \<open>
  The invariant of the selection cursor: when a square is selected, a colour is assigned,
  it is that colour's turn, and the square holds a piece of that colour.
\<close>

definition cursor_ok :: "'g engine \<Rightarrow> 'g view \<Rightarrow> bool" where
  "cursor_ok E s =
     (case selectedSquare s of
        None \<Rightarrow> True
      | Some square \<Rightarrow>
          (case playerColor s of
             None \<Rightarrow> False
           | Some color \<Rightarrow>
               color \<noteq> [] \<and> e_turn E (game s) = hd color \<and> friendly E s color square))"

text \<open>
  Runs of the controller on the fragment, each from the loaded script.
  \<^item> White joins, clicks e2 (\<open>white_e2\<close>), clicks e4 (\<open>white_e4\<close>), receives the position
    after 1. e4 e5 as game info (\<open>white_info\<close>) and clicks g1 (\<open>white_g1\<close>).
  \<^item> White joins, clicks e2, and a move broadcast carrying the position after 1. e4
    arrives (\<open>white_e2_pushed\<close>).
  \<^item> Black joins, receives 1. f3 e5 2. g4 as a move broadcast (\<open>black_to_mate\<close>) and
    clicks d8 (\<open>black_d8\<close>).
  \<^item> White joins and receives a stalemate position (\<open>white_stalemate\<close>).
\<close>

definition white_joined :: "cgame view" where
  "white_joined = game_joined chess (Some ''white'') (initial chess ''abc123'')"

definition white_e2 :: "cgame view" where
  "white_e2 = handleSquareClick chess ''e2'' white_joined"

definition white_e4 :: "cgame view" where
  "white_e4 = handleSquareClick chess ''e4'' white_e2"

definition white_info :: "cgame view" where
  "white_info =
     game_info chess \<lparr>d_fen = Some fen_e4_e5, d_color = None, d_status = None\<rparr> white_e4"

definition white_g1 :: "cgame view" where
  "white_g1 = handleSquareClick chess ''g1'' white_info"

definition white_e2_pushed :: "cgame view" where
  "white_e2_pushed = move_made chess fen_e4 white_e2"

definition black_joined :: "cgame view" where
  "black_joined = game_joined chess (Some ''black'') (initial chess ''abc123'')"

definition black_to_mate :: "cgame view" where
  "black_to_mate = move_made chess fen_f3_e5_g4 black_joined"

definition black_d8 :: "cgame view" where
  "black_d8 = handleSquareClick chess ''d8'' black_to_mate"

definition white_stalemate :: "cgame view" where
  "white_stalemate = move_made chess fen_stalemate white_joined"

text \<open>A lobby page on which the user has typed an identifier between blanks.\<close>

definition lobby_typed :: lobby where
  "lobby_typed =
     \<lparr> origin = ''https://chess.example'', gameIdInput = '' abc123 '', gameLinkHTML = [],
       gameLinkClasses = [''hidden''], href = None, timers = [], alerts = [], sent = [] \<rparr>"

text \<open>
  The library counts a stalemate as a draw. This variant of the fragment has a draw
  predicate that does not: with it the stalemate test of checkGameStatus decides.
\<close>

definition chess_plain_draw :: "cgame engine" where
  "chess_plain_draw = chess\<lparr>e_isDraw := (\<lambda>g. False)\<rparr>"

section \<open>What each operation leaves alone\<close>

lemma updateGameStatus_frame [simp]:
  "gameId (updateGameStatus E st s) = gameId s"
  "game (updateGameStatus E st s) = game s"
  "playerColor (updateGameStatus E st s) = playerColor s"
  "selectedSquare (updateGameStatus E st s) = selectedSquare s"
  "board (updateGameStatus E st s) = board s"
  "whiteStatus (updateGameStatus E st s) = whiteStatus s"
  "blackStatus (updateGameStatus E st s) = blackStatus s"
  "movesList (updateGameStatus E st s) = movesList s"
  "emitted (updateGameStatus E st s) = emitted s"
  "uncaught (updateGameStatus E st s) = uncaught s"
  by (simp_all add: updateGameStatus_def)

lemma checkGameStatus_frame [simp]:
  "gameId (checkGameStatus E s) = gameId s"
  "game (checkGameStatus E s) = game s"
  "playerColor (checkGameStatus E s) = playerColor s"
  "selectedSquare (checkGameStatus E s) = selectedSquare s"
  "board (checkGameStatus E s) = board s"
  "whiteStatus (checkGameStatus E s) = whiteStatus s"
  "blackStatus (checkGameStatus E s) = blackStatus s"
  "movesList (checkGameStatus E s) = movesList s"
  "emitted (checkGameStatus E s) = emitted s"
  "uncaught (checkGameStatus E s) = uncaught s"
  by (simp_all add: checkGameStatus_def)

lemma updatePlayerStatus_frame [simp]:
  "gameId (updatePlayerStatus E s) = gameId s"
  "game (updatePlayerStatus E s) = game s"
  "playerColor (updatePlayerStatus E s) = playerColor s"
  "selectedSquare (updatePlayerStatus E s) = selectedSquare s"
  "board (updatePlayerStatus E s) = board s"
  "gameStatus (updatePlayerStatus E s) = gameStatus s"
  "movesList (updatePlayerStatus E s) = movesList s"
  "emitted (updatePlayerStatus E s) = emitted s"
  "uncaught (updatePlayerStatus E s) = uncaught s"
  by (simp_all add: updatePlayerStatus_def Let_def)

lemma updateMovesList_frame [simp]:
  "gameId (updateMovesList E s) = gameId s"
  "game (updateMovesList E s) = game s"
  "playerColor (updateMovesList E s) = playerColor s"
  "selectedSquare (updateMovesList E s) = selectedSquare s"
  "board (updateMovesList E s) = board s"
  "gameStatus (updateMovesList E s) = gameStatus s"
  "whiteStatus (updateMovesList E s) = whiteStatus s"
  "blackStatus (updateMovesList E s) = blackStatus s"
  "emitted (updateMovesList E s) = emitted s"
  "uncaught (updateMovesList E s) = uncaught s"
  by (simp_all add: updateMovesList_def)

lemma highlightLastMove_frame [simp]:
  "gameId (highlightLastMove E s) = gameId s"
  "game (highlightLastMove E s) = game s"
  "playerColor (highlightLastMove E s) = playerColor s"
  "selectedSquare (highlightLastMove E s) = selectedSquare s"
  "gameStatus (highlightLastMove E s) = gameStatus s"
  "whiteStatus (highlightLastMove E s) = whiteStatus s"
  "blackStatus (highlightLastMove E s) = blackStatus s"
  "movesList (highlightLastMove E s) = movesList s"
  "emitted (highlightLastMove E s) = emitted s"
  "uncaught (highlightLastMove E s) = uncaught s"
  by (simp_all add: highlightLastMove_def Let_def)

lemma highlightCheck_frame [simp]:
  "gameId (highlightCheck E s) = gameId s"
  "game (highlightCheck E s) = game s"
  "playerColor (highlightCheck E s) = playerColor s"
  "selectedSquare (highlightCheck E s) = selectedSquare s"
  "gameStatus (highlightCheck E s) = gameStatus s"
  "whiteStatus (highlightCheck E s) = whiteStatus s"
  "blackStatus (highlightCheck E s) = blackStatus s"
  "movesList (highlightCheck E s) = movesList s"
  "emitted (highlightCheck E s) = emitted s"
  "uncaught (highlightCheck E s) = uncaught s"
  by (simp_all add: highlightCheck_def)

lemma renderBoard_frame [simp]:
  "gameId (renderBoard E s) = gameId s"
  "game (renderBoard E s) = game s"
  "playerColor (renderBoard E s) = playerColor s"
  "selectedSquare (renderBoard E s) = selectedSquare s"
  "gameStatus (renderBoard E s) = gameStatus s"
  "whiteStatus (renderBoard E s) = whiteStatus s"
  "blackStatus (renderBoard E s) = blackStatus s"
  "movesList (renderBoard E s) = movesList s"
  "emitted (renderBoard E s) = emitted s"
  "uncaught (renderBoard E s) = uncaught s"
  by (simp_all add: renderBoard_def)

lemma highlightPossibleMoves_frame [simp]:
  "gameId (highlightPossibleMoves E q s) = gameId s"
  "game (highlightPossibleMoves E q s) = game s"
  "playerColor (highlightPossibleMoves E q s) = playerColor s"
  "selectedSquare (highlightPossibleMoves E q s) = selectedSquare s"
  "gameStatus (highlightPossibleMoves E q s) = gameStatus s"
  "whiteStatus (highlightPossibleMoves E q s) = whiteStatus s"
  "blackStatus (highlightPossibleMoves E q s) = blackStatus s"
  "movesList (highlightPossibleMoves E q s) = movesList s"
  "emitted (highlightPossibleMoves E q s) = emitted s"
  "uncaught (highlightPossibleMoves E q s) = uncaught s"
  by (simp_all add: highlightPossibleMoves_def)

section \<open>The branches of a click\<close>

lemma click_ignored: "\<not> clickable E s \<Longrightarrow> handleSquareClick E q s = s"
  by (auto simp: clickable_def handleSquareClick_def split: option.splits)

lemma click_deselect:
  assumes "clickable E s" "selectedSquare s = Some S" "S \<noteq> []"
  shows "handleSquareClick E S s = renderBoard E (s\<lparr>selectedSquare := None\<rparr>)"
  using assms by (auto simp: clickable_def handleSquareClick_def split: option.splits)

lemma click_accepted:
  assumes "clickable E s" "selectedSquare s = Some S" "S \<noteq> []" "Q \<noteq> S"
    and "e_move E S Q (CHR ''q'') (game s) = Inr (Some (m, g'))"
  shows "handleSquareClick E Q s =
     updatePlayerStatus E (updateGameStatus E ''active'' (checkGameStatus E (updateMovesList E
       (renderBoard E
         ((updatePlayerStatus E (updateGameStatus E ''active'' (s\<lparr>game := g'\<rparr>)))
            \<lparr>emitted := emitted s @ [MakeMove (gameId s) (m_san m) (e_fen E g')],
             selectedSquare := None\<rparr>)))))"
  using assms
  by (auto simp: clickable_def handleSquareClick_def game_move_def Let_def split: option.splits)

lemma click_rejected:
  assumes "clickable E s" "selectedSquare s = Some S" "S \<noteq> []" "Q \<noteq> S" "Q \<noteq> []"
    and "e_move E S Q (CHR ''q'') (game s) = Inr None"
  shows "handleSquareClick E Q s =
     (if friendly E s (the (playerColor s)) Q
      then highlightPossibleMoves E Q (renderBoard E (s\<lparr>selectedSquare := Some Q\<rparr>))
      else renderBoard E (s\<lparr>selectedSquare := None\<rparr>))"
  using assms
  by (auto simp: clickable_def handleSquareClick_def game_move_def Let_def split: option.splits)

lemma click_throws:
  assumes "clickable E s" "selectedSquare s = Some S" "S \<noteq> []" "Q \<noteq> S"
    and "e_move E S Q (CHR ''q'') (game s) = Inl err"
  shows "handleSquareClick E Q s = s\<lparr>uncaught := uncaught s @ [err]\<rparr>"
  using assms
  by (auto simp: clickable_def handleSquareClick_def game_move_def split: option.splits)

lemma click_select:
  assumes "clickable E s" "playerColor s = Some color" "\<not> truthy (selectedSquare s)"
  shows "handleSquareClick E q s =
     (if friendly E s color q
      then highlightPossibleMoves E q (renderBoard E (s\<lparr>selectedSquare := Some q\<rparr>))
      else s)"
  using assms by (auto simp: clickable_def handleSquareClick_def split: option.splits)

section \<open>The squares of a rendered board\<close>

lemma decimal_digit: "n < 10 \<Longrightarrow> decimal n = [''0123456789'' ! n]"
  by (simp add: decimal.simps)

lemma addClassAt_names [simp]: "map sq_square (addClassAt sq c b) = map sq_square b"
  by (induction b) auto

lemma checkStep_names [simp]: "map sq_square (checkStep E g b rf) = map sq_square b"
  by (simp add: checkStep_def split: option.splits)

lemma foldl_checkStep_names [simp]:
  "map sq_square (foldl (checkStep E g) b rfs) = map sq_square b"
  by (induction rfs arbitrary: b) simp_all

lemma renderBoard_names:
  "map sq_square (board (renderBoard E s)) =
     concat (map (\<lambda>rank. map (\<lambda>file. squareName file rank) (files s)) (ranks s))"
  by (simp add: renderBoard_def highlightCheck_def highlightLastMove_def Let_def
      squareElement_def map_concat comp_def)

lemma names_black:
  "playerColor s = Some ''black'' \<Longrightarrow>
   map sq_square (board (renderBoard E s)) =
     [''a8'', ''b8'', ''c8'', ''d8'', ''e8'', ''f8'', ''g8'', ''h8'',
      ''a7'', ''b7'', ''c7'', ''d7'', ''e7'', ''f7'', ''g7'', ''h7'',
      ''a6'', ''b6'', ''c6'', ''d6'', ''e6'', ''f6'', ''g6'', ''h6'',
      ''a5'', ''b5'', ''c5'', ''d5'', ''e5'', ''f5'', ''g5'', ''h5'',
      ''a4'', ''b4'', ''c4'', ''d4'', ''e4'', ''f4'', ''g4'', ''h4'',
      ''a3'', ''b3'', ''c3'', ''d3'', ''e3'', ''f3'', ''g3'', ''h3'',
      ''a2'', ''b2'', ''c2'', ''d2'', ''e2'', ''f2'', ''g2'', ''h2'',
      ''a1'', ''b1'', ''c1'', ''d1'', ''e1'', ''f1'', ''g1'', ''h1'']"
  by (simp add: renderBoard_names ranks_def files_def isFlipped_def squareName_def decimal_digit)

lemma names_white:
  "playerColor s \<noteq> Some ''black'' \<Longrightarrow>
   map sq_square (board (renderBoard E s)) =
     [''a1'', ''b1'', ''c1'', ''d1'', ''e1'', ''f1'', ''g1'', ''h1'',
      ''a2'', ''b2'', ''c2'', ''d2'', ''e2'', ''f2'', ''g2'', ''h2'',
      ''a3'', ''b3'', ''c3'', ''d3'', ''e3'', ''f3'', ''g3'', ''h3'',
      ''a4'', ''b4'', ''c4'', ''d4'', ''e4'', ''f4'', ''g4'', ''h4'',
      ''a5'', ''b5'', ''c5'', ''d5'', ''e5'', ''f5'', ''g5'', ''h5'',
      ''a6'', ''b6'', ''c6'', ''d6'', ''e6'', ''f6'', ''g6'', ''h6'',
      ''a7'', ''b7'', ''c7'', ''d7'', ''e7'', ''f7'', ''g7'', ''h7'',
      ''a8'', ''b8'', ''c8'', ''d8'', ''e8'', ''f8'', ''g8'', ''h8'']"
  by (simp add: renderBoard_names ranks_def files_def isFlipped_def squareName_def decimal_digit)

lemma nth_names:
  "i < length b \<Longrightarrow> sq_square (b ! i) = map sq_square b ! i"
  by simp

lemma length_movesLoop: "length (movesLoop h i) = (length h - i + 1) div 2"
proof (induction h i rule: movesLoop.induct)
  case (1 h i)
  show ?case
  proof (cases "i < length h")
    case True
    have "length (movesLoop h i) = Suc (length (movesLoop h (i + 2)))"
      using True by (subst movesLoop.simps) (simp add: Let_def)
    also have "\<dots> = Suc ((length h - (i + 2) + 1) div 2)"
      using "1.IH" [OF True refl refl refl] by simp
    also have "\<dots> = (length h - i + 1) div 2"
      using True by arith
    finally show ?thesis .
  next
    case False
    then show ?thesis by (subst movesLoop.simps) simp
  qed
qed

lemma classList_add_set [simp]: "set (classList_add c cs) = insert c (set cs)"
  by (auto simp: classList_add_def)

lemma addClassAt_absent:
  "\<forall>e\<in>set b. x \<notin> set (sq_classes e) \<Longrightarrow> x \<noteq> c \<Longrightarrow>
   \<forall>e\<in>set (addClassAt sq c b). x \<notin> set (sq_classes e)"
  by (induction b) auto

lemma foldl_checkStep_absent:
  "\<forall>e\<in>set b. x \<notin> set (sq_classes e) \<Longrightarrow> x \<noteq> ''check'' \<Longrightarrow>
   \<forall>e\<in>set (foldl (checkStep E g) b rfs). x \<notin> set (sq_classes e)"
proof (induction rfs arbitrary: b)
  case Nil
  then show ?case by simp
next
  case (Cons rf rfs)
  have "\<forall>e\<in>set (checkStep E g b rf). x \<notin> set (sq_classes e)"
    using Cons.prems addClassAt_absent [of b x "''check''"]
    by (simp add: checkStep_def split: option.splits)
  from Cons.IH [OF this Cons.prems(2)] show ?case by simp
qed

lemma squareElement_classes:
  "set (sq_classes (squareElement E s rank file)) \<subseteq> {''square'', ''light'', ''dark'', ''selected''}"
  by (auto simp: squareElement_def Let_def)

lemma renderBoard_no_possible_move:
  "\<forall>e\<in>set (board (renderBoard E s)). ''possible-move'' \<notin> set (sq_classes e)"
proof -
  let ?b0 = "concat (map (\<lambda>rank. map (\<lambda>file. squareElement E s rank file) (files s)) (ranks s))"
  have b0: "\<forall>e\<in>set ?b0. ''possible-move'' \<notin> set (sq_classes e)"
    using squareElement_classes [of E s] by fastforce
  have b1: "\<forall>e\<in>set (board (highlightLastMove E (s\<lparr>board := ?b0\<rparr>))).
      ''possible-move'' \<notin> set (sq_classes e)"
  proof (cases "length (e_history E (game s)) > 0")
    case True
    let ?m = "last (e_history E (game s))"
    have "\<forall>e\<in>set (addClassAt (m_from ?m) ''last-move'' ?b0).
        ''possible-move'' \<notin> set (sq_classes e)"
      by (rule addClassAt_absent [OF b0]) simp
    then have "\<forall>e\<in>set (addClassAt (m_to ?m) ''last-move''
        (addClassAt (m_from ?m) ''last-move'' ?b0)). ''possible-move'' \<notin> set (sq_classes e)"
      by (rule addClassAt_absent) simp
    then show ?thesis using True by (simp add: highlightLastMove_def Let_def del: set_concat)
  next
    case False
    then show ?thesis using b0 by (simp add: highlightLastMove_def Let_def del: set_concat)
  qed
  show ?thesis
    unfolding renderBoard_def highlightCheck_def
    using b1 foldl_checkStep_absent [OF b1, of E]
    by (simp del: set_concat)
qed

lemma addClassAt_marks:
  "distinct (map sq_square b) \<Longrightarrow>
   \<forall>e\<in>set (addClassAt sq c b). sq_square e = sq \<longrightarrow> c \<in> set (sq_classes e)"
  by (induction b) (auto simp: image_iff)

lemma addClassAt_keeps_marks:
  "\<forall>e\<in>set b. sq_square e = sq' \<longrightarrow> c' \<in> set (sq_classes e) \<Longrightarrow>
   \<forall>e\<in>set (addClassAt sq c b). sq_square e = sq' \<longrightarrow> c' \<in> set (sq_classes e)"
  by (induction b) auto

lemma foldl_keeps_marks:
  "\<forall>e\<in>set b. sq_square e = sq' \<longrightarrow> c' \<in> set (sq_classes e) \<Longrightarrow>
   \<forall>e\<in>set (foldl (\<lambda>b m. addClassAt (m_to m) c b) b ms).
      sq_square e = sq' \<longrightarrow> c' \<in> set (sq_classes e)"
proof (induction ms arbitrary: b)
  case Nil
  then show ?case by simp
next
  case (Cons m ms)
  from Cons.IH [OF addClassAt_keeps_marks [OF Cons.prems]] show ?case by simp
qed

lemma foldl_names [simp]:
  "map sq_square (foldl (\<lambda>b m. addClassAt (m_to m) c b) b ms) = map sq_square b"
  by (induction ms arbitrary: b) simp_all

lemma foldl_marks:
  "distinct (map sq_square b) \<Longrightarrow>
   \<forall>m\<in>set ms. \<forall>e\<in>set (foldl (\<lambda>b m. addClassAt (m_to m) c b) b ms).
      sq_square e = m_to m \<longrightarrow> c \<in> set (sq_classes e)"
proof (induction ms arbitrary: b)
  case Nil
  then show ?case by simp
next
  case (Cons m ms)
  have d: "distinct (map sq_square (addClassAt (m_to m) c b))"
    using Cons.prems by simp
  have first: "\<forall>e\<in>set (foldl (\<lambda>b m. addClassAt (m_to m) c b) (addClassAt (m_to m) c b) ms).
      sq_square e = m_to m \<longrightarrow> c \<in> set (sq_classes e)"
    by (rule foldl_keeps_marks [OF addClassAt_marks [OF Cons.prems]])
  show ?case using first Cons.IH [OF d] by simp
qed

lemma renderBoard_distinct: "distinct (map sq_square (board (renderBoard E s)))"
proof (cases "playerColor s = Some ''black''")
  case True
  show ?thesis unfolding names_black [OF True] by simp
next
  case False
  show ?thesis unfolding names_white [OF False] by simp
qed

section \<open>More on clicks and pushes\<close>

lemma click_rejected_fields:
  assumes "clickable E s" and "playerColor s = Some color"
    and "selectedSquare s = Some S" "S \<noteq> []" and "Q \<noteq> S"
    and "e_move E S Q (CHR ''q'') (game s) = Inr None"
  shows "selectedSquare (handleSquareClick E Q s) =
           (if friendly E s color Q then Some Q else None) \<and>
         playerColor (handleSquareClick E Q s) = playerColor s \<and>
         game (handleSquareClick E Q s) = game s \<and>
         emitted (handleSquareClick E Q s) = emitted s"
proof -
  have g: "color \<noteq> []" "e_turn E (game s) = hd color" "\<not> e_isGameOver E (game s)"
    using assms(1,2) by (simp_all add: clickable_def)
  let ?s3 = "renderBoard E
      (s\<lparr>selectedSquare := (if friendly E s color Q then Some Q else None)\<rparr>)"
  have "handleSquareClick E Q s =
      (if truthy (selectedSquare ?s3) then highlightPossibleMoves E (the (selectedSquare ?s3)) ?s3
       else ?s3)"
    using g assms(2-6) by (simp add: handleSquareClick_def game_move_def Let_def)
  then show ?thesis by simp
qed

lemma accepted_status:
  assumes "clickable E s" and "selectedSquare s = Some S" and "S \<noteq> []" and "Q \<noteq> S"
    and "e_move E S Q (CHR ''q'') (game s) = Inr (Some (m, g'))"
  shows "gameStatus (handleSquareClick E Q s) =
           (if e_turn E g' = CHR ''w'' then WhiteToMove else BlackToMove)"
  unfolding click_accepted [OF assms] by (simp add: updateGameStatus_def)

lemma accepted_game:
  assumes "clickable E s" and "selectedSquare s = Some S" and "S \<noteq> []" and "Q \<noteq> S"
    and "e_move E S Q (CHR ''q'') (game s) = Inr (Some (m, g'))"
  shows "game (handleSquareClick E Q s) = g'"
  unfolding click_accepted [OF assms] by simp

lemma game_joined_fields [simp]:
  "gameId (game_joined E c s) = gameId s"
  "game (game_joined E c s) = game s"
  "playerColor (game_joined E c s) = c"
  "selectedSquare (game_joined E c s) = selectedSquare s"
  "gameStatus (game_joined E c s) = gameStatus s"
  "movesList (game_joined E c s) = movesList s"
  "emitted (game_joined E c s) = emitted s"
  "uncaught (game_joined E c s) = uncaught s"
  by (simp_all add: game_joined_def)

lemma move_made_fields [simp]:
  "gameId (move_made E fen s) = gameId s"
  "game (move_made E fen s) = e_load E fen (game s)"
  "playerColor (move_made E fen s) = playerColor s"
  "selectedSquare (move_made E fen s) = selectedSquare s"
  "movesList (move_made E fen s) = movesLoop (map m_san (e_history E (e_load E fen (game s)))) 0"
  "emitted (move_made E fen s) = emitted s"
  "uncaught (move_made E fen s) = uncaught s"
  by (simp_all add: move_made_def updateMovesList_def)

lemma move_made_status:
  "gameStatus (move_made E fen s) =
     gameStatus (checkGameStatus E (s\<lparr>game := e_load E fen (game s)\<rparr>))"
  by (simp add: move_made_def checkGameStatus_def updateGameStatus_def)

lemma game_info_fields [simp]:
  "gameId (game_info E d s) = gameId s"
  "game (game_info E d s) =
     (if truthy (d_fen d) then e_load E (the (d_fen d)) (game s) else game s)"
  "playerColor (game_info E d s) = (if truthy (d_color d) then d_color d else playerColor s)"
  "selectedSquare (game_info E d s) = selectedSquare s"
  "movesList (game_info E d s) = movesList s"
  "emitted (game_info E d s) = emitted s"
  "uncaught (game_info E d s) = uncaught s"
  by (simp_all add: game_info_def Let_def)

section \<open>Trimming\<close>

text \<open>
  What is left of a text after trimming is a part of it, and no white space ends it.
\<close>

lemma dropLeading_done: "leading ws (dropLeading ws s) = 0"
proof (induction ws s rule: dropLeading.induct)
  case (1 ws s)
  show ?case
  proof (cases "leading ws s = 0")
    case True
    then show ?thesis by (subst dropLeading.simps) simp
  next
    case False
    then show ?thesis using "1.IH" by (subst dropLeading.simps) simp
  qed
qed

lemma dropLeading_suffix: "\<exists>pre. s = pre @ dropLeading ws s"
proof (induction ws s rule: dropLeading.induct)
  case (1 ws s)
  show ?case
  proof (cases "leading ws s = 0")
    case True
    then show ?thesis by (subst dropLeading.simps) simp
  next
    case False
    with "1.IH" obtain pre where
      "drop (leading ws s) s = pre @ dropLeading ws (drop (leading ws s) s)"
      by blast
    then have "s = (take (leading ws s) s @ pre) @ dropLeading ws (drop (leading ws s) s)"
      by (metis append.assoc append_take_drop_id)
    moreover have "dropLeading ws s = dropLeading ws (drop (leading ws s) s)"
      using False by (subst dropLeading.simps) simp
    ultimately have "s = (take (leading ws s) s @ pre) @ dropLeading ws s"
      by simp
    then show ?thesis by (rule exI)
  qed
qed

lemma trim_inside: "\<exists>pre post. s = pre @ trim s @ post"
proof -
  obtain pre where p: "s = pre @ dropLeading whitespace s"
    using dropLeading_suffix by blast
  let ?m = "dropLeading whitespace s"
  obtain q where "rev ?m = q @ dropLeading (map rev whitespace) (rev ?m)"
    using dropLeading_suffix by blast
  then have "?m = trim s @ rev q"
    by (metis rev_append rev_rev_ident trim_def)
  with p show ?thesis by metis
qed

lemma trim_no_trailing: "leading (map rev whitespace) (rev (trim s)) = 0"
  by (simp add: trim_def dropLeading_done)

lemma leading_chunk:
  assumes "leading ws s \<noteq> 0"
  shows "take (leading ws s) s \<in> set ws"
proof -
  obtain w where f: "List.find (\<lambda>w. w \<noteq> [] \<and> take (length w) s = w) ws = Some w"
    using assms by (cases "List.find (\<lambda>w. w \<noteq> [] \<and> take (length w) s = w) ws")
      (simp_all add: leading_def)
  then have "w \<in> set ws" "take (length w) s = w"
    by (auto simp: find_Some_iff)
  moreover have "leading ws s = length w"
    using f by (simp add: leading_def)
  ultimately show ?thesis by simp
qed

lemma leading_none:
  assumes "leading ws r = 0" and "w \<in> set ws" and "w \<noteq> []"
  shows "take (length w) r \<noteq> w"
proof
  assume t: "take (length w) r = w"
  show False
  proof (cases "List.find (\<lambda>w. w \<noteq> [] \<and> take (length w) r = w) ws")
    case None
    then show False using assms(2,3) t by (auto simp: find_None_iff)
  next
    case (Some v)
    then have "v \<noteq> []" by (auto simp: find_Some_iff)
    with Some assms(1) show False by (simp add: leading_def)
  qed
qed

lemma dropLeading_chunks: "\<exists>ps. set ps \<subseteq> set ws \<and> s = concat ps @ dropLeading ws s"
proof (induction ws s rule: dropLeading.induct)
  case (1 ws s)
  show ?case
  proof (cases "leading ws s = 0")
    case True
    then have "dropLeading ws s = s" by (subst dropLeading.simps) simp
    then have "set [] \<subseteq> set ws \<and> s = concat [] @ dropLeading ws s" by simp
    then show ?thesis by (rule exI)
  next
    case False
    with "1.IH" obtain ps where ps: "set ps \<subseteq> set ws"
      "drop (leading ws s) s = concat ps @ dropLeading ws (drop (leading ws s) s)"
      by blast
    have same: "dropLeading ws s = dropLeading ws (drop (leading ws s) s)"
      using False by (subst dropLeading.simps) simp
    have "s = take (leading ws s) s @ drop (leading ws s) s" by simp
    also have "\<dots> = concat (take (leading ws s) s # ps) @ dropLeading ws s"
      using ps(2) same by simp
    finally have "s = concat (take (leading ws s) s # ps) @ dropLeading ws s" .
    moreover have "set (take (leading ws s) s # ps) \<subseteq> set ws"
      using ps(1) leading_chunk [OF False] by simp
    ultimately show ?thesis by blast
  qed
qed

lemma whitespace_nonempty: "[] \<notin> set whitespace"
  by (simp add: whitespace_def)

text \<open>
  Trimming takes white space characters off both ends, and what is left neither begins
  nor ends with one.
\<close>

lemma trim_spec:
  "\<exists>ps qs. set ps \<subseteq> set whitespace \<and> set qs \<subseteq> set whitespace \<and>
     s = concat ps @ trim s @ concat qs \<and>
     (\<forall>w\<in>set whitespace. \<forall>x. trim s \<noteq> w @ x \<and> trim s \<noteq> x @ w)"
proof -
  let ?m = "dropLeading whitespace s"
  let ?rws = "map rev whitespace"
  obtain ps where ps: "set ps \<subseteq> set whitespace" "s = concat ps @ ?m"
    using dropLeading_chunks by blast
  obtain rs where rs: "set rs \<subseteq> set ?rws" "rev ?m = concat rs @ dropLeading ?rws (rev ?m)"
    using dropLeading_chunks by blast
  let ?qs = "map rev (rev rs)"
  have "rev (rev ?m) = rev (concat rs @ dropLeading ?rws (rev ?m))"
    using rs(2) by simp
  then have m: "?m = trim s @ concat ?qs"
    by (simp add: trim_def rev_concat)
  have qs: "set ?qs \<subseteq> set whitespace"
    using rs(1) by auto
  have ends: "trim s \<noteq> x @ w" if w: "w \<in> set whitespace" for w x
  proof
    assume "trim s = x @ w"
    then have "rev (trim s) = rev w @ rev x" by simp
    then have "take (length (rev w)) (rev (trim s)) = rev w" by simp
    moreover have "rev w \<in> set ?rws" "rev w \<noteq> []"
      using w whitespace_nonempty by auto
    ultimately show False
      using leading_none [OF trim_no_trailing] by blast
  qed
  have begins: "trim s \<noteq> w @ x" if w: "w \<in> set whitespace" for w x
  proof
    assume "trim s = w @ x"
    then have "take (length w) ?m = w" using m by simp
    moreover have "w \<noteq> []" using w whitespace_nonempty by auto
    ultimately show False
      using leading_none [OF dropLeading_done w] by blast
  qed
  have "s = concat ps @ trim s @ concat ?qs"
    using ps(2) m by simp
  with ps(1) qs begins ends show ?thesis by blast
qed

section \<open>The cursor invariant\<close>

lemma cursor_ok_cong:
  "selectedSquare s' = selectedSquare s \<Longrightarrow> playerColor s' = playerColor s \<Longrightarrow>
   game s' = game s \<Longrightarrow> cursor_ok E s' = cursor_ok E s"
  by (simp add: cursor_ok_def friendly_def split: option.splits)

lemma cursor_ok_None: "selectedSquare s = None \<Longrightarrow> cursor_ok E s"
  by (simp add: cursor_ok_def)

lemma cursor_ok_select:
  assumes "clickable E s" "playerColor s = Some color" "friendly E s color q"
    and "selectedSquare s' = Some q" "playerColor s' = playerColor s" "game s' = game s"
  shows "cursor_ok E s'"
  using assms by (simp add: cursor_ok_def clickable_def friendly_def)

section \<open>Evaluating the fragment\<close>

lemma chess_fields [simp]:
  "e_new chess = \<lparr>c_fen = fen_start, c_history = []\<rparr>"
  "e_load chess fen g = \<lparr>c_fen = fen, c_history = []\<rparr>"
  "e_move chess = c_move"
  "e_get chess g = fenGet (c_fen g)"
  "e_turn chess g = fenTurn (c_fen g)"
  "e_fen chess = c_fen"
  "e_history chess = c_history"
  "e_moves chess g sq = map fst (tableMoves (c_fen g) sq)"
  "e_isGameOver chess g = (c_fen g = fen_mated \<or> c_fen g = fen_stalemate)"
  "e_isCheckmate chess g = (c_fen g = fen_mated)"
  "e_isDraw chess g = (c_fen g = fen_stalemate)"
  "e_isStalemate chess g = (c_fen g = fen_stalemate)"
  by (simp_all add: chess_def)

lemma chess_plain_draw_fields [simp]:
  "e_turn chess_plain_draw g = fenTurn (c_fen g)"
  "e_isCheckmate chess_plain_draw g = (c_fen g = fen_mated)"
  "e_isDraw chess_plain_draw g = False"
  "e_isStalemate chess_plain_draw g = (c_fen g = fen_stalemate)"
  by (simp_all add: chess_plain_draw_def chess_def)

lemma turns:
  "fenTurn fen_start = CHR ''w''" "fenTurn fen_e4 = CHR ''b''" "fenTurn fen_e4_e5 = CHR ''w''"
  "fenTurn fen_f3_e5_g4 = CHR ''b''" "fenTurn fen_mated = CHR ''w''"
  "fenTurn fen_stalemate = CHR ''b''"
  by code_simp+

lemma pieces:
  "fenGet fen_start ''e2'' = Some \<lparr>p_color = CHR ''w'', p_type = CHR ''p''\<rparr>"
  "fenGet fen_start ''d2'' = Some \<lparr>p_color = CHR ''w'', p_type = CHR ''p''\<rparr>"
  "fenGet fen_start ''e5'' = None"
  "fenGet fen_e4 ''e2'' = None"
  "fenGet fen_e4_e5 ''g1'' = Some \<lparr>p_color = CHR ''w'', p_type = CHR ''n''\<rparr>"
  "fenGet fen_f3_e5_g4 ''d8'' = Some \<lparr>p_color = CHR ''b'', p_type = CHR ''q''\<rparr>"
  by code_simp+

lemma positions_differ:
  "fen_start \<noteq> fen_mated" "fen_start \<noteq> fen_stalemate"
  "fen_e4 \<noteq> fen_mated" "fen_e4 \<noteq> fen_stalemate"
  "fen_e4_e5 \<noteq> fen_mated" "fen_e4_e5 \<noteq> fen_stalemate"
  "fen_f3_e5_g4 \<noteq> fen_mated" "fen_f3_e5_g4 \<noteq> fen_stalemate"
  "fen_stalemate \<noteq> fen_mated"
  by (simp_all add: fen_start_def fen_e4_def fen_e4_e5_def fen_f3_e5_g4_def fen_mated_def
      fen_stalemate_def)

lemma fens_nonempty: "fen_e4 \<noteq> []" "fen_e4_e5 \<noteq> []"
  by (simp_all add: fen_e4_def fen_e4_e5_def)

lemma table_moves:
  "c_move ''e2'' ''e4'' (CHR ''q'') \<lparr>c_fen = fen_start, c_history = []\<rparr> =
     Inr (Some (\<lparr>m_san = ''e4'', m_from = ''e2'', m_to = ''e4''\<rparr>,
           \<lparr>c_fen = fen_e4, c_history = [\<lparr>m_san = ''e4'', m_from = ''e2'', m_to = ''e4''\<rparr>]\<rparr>))"
  "c_move ''e2'' ''d2'' (CHR ''q'') \<lparr>c_fen = fen_start, c_history = []\<rparr> = Inl InvalidMove"
  "c_move ''e2'' ''e5'' (CHR ''q'') \<lparr>c_fen = fen_start, c_history = []\<rparr> = Inl InvalidMove"
  "c_move ''g1'' ''f3'' (CHR ''q'') \<lparr>c_fen = fen_e4_e5, c_history = []\<rparr> =
     Inr (Some (\<lparr>m_san = ''Nf3'', m_from = ''g1'', m_to = ''f3''\<rparr>,
           \<lparr>c_fen = ''rnbqkbnr/pppp1ppp/8/4p3/4P3/5N2/PPPP1PPP/RNBQKB1R b KQkq - 1 2'',
             c_history = [\<lparr>m_san = ''Nf3'', m_from = ''g1'', m_to = ''f3''\<rparr>]\<rparr>))"
  "c_move ''d8'' ''h4'' (CHR ''q'') \<lparr>c_fen = fen_f3_e5_g4, c_history = []\<rparr> =
     Inr (Some (\<lparr>m_san = ''Qh4#'', m_from = ''d8'', m_to = ''h4''\<rparr>,
           \<lparr>c_fen = fen_mated, c_history = [\<lparr>m_san = ''Qh4#'', m_from = ''d8'', m_to = ''h4''\<rparr>]\<rparr>))"
  by code_simp+

lemma move_items:
  "movesLoop [''e4''] 0 = [''1. e4 '']" "movesLoop [''Nf3''] 0 = [''1. Nf3 '']"
  "movesLoop [] 0 = []"
  by code_simp+

lemma trims: "trim '' abc123 '' = ''abc123''" "trim '' '' = []"
  by code_simp+

lemma marked_square:
  assumes "\<forall>m\<in>set ms. \<forall>e\<in>set b. sq_square e = m_to m \<longrightarrow> c \<in> set (sq_classes e)"
    and "q \<in> set (map m_to ms)" and "q \<in> set (map sq_square b)"
  shows "\<exists>e\<in>set b. sq_square e = q \<and> c \<in> set (sq_classes e)"
  using assms by auto

subsection \<open>The runs\<close>

lemma white_joined_facts:
  "gameId white_joined = ''abc123''"
  "game white_joined = \<lparr>c_fen = fen_start, c_history = []\<rparr>"
  "playerColor white_joined = Some ''white''"
  "selectedSquare white_joined = None"
  "gameStatus white_joined = PageMarkup"
  "movesList white_joined = []"
  "emitted white_joined = [JoinGame ''abc123'']"
  "uncaught white_joined = []"
  by (simp_all add: white_joined_def initial_def)

lemma white_joined_clickable: "clickable chess white_joined"
  by (simp add: clickable_def white_joined_facts turns positions_differ)

lemma white_e2_eq:
  "white_e2 =
     highlightPossibleMoves chess ''e2'' (renderBoard chess (white_joined\<lparr>selectedSquare := Some ''e2''\<rparr>))"
  unfolding white_e2_def
  using click_select [OF white_joined_clickable, of "''white''" "''e2''"]
  by (simp add: white_joined_facts friendly_def pieces)

lemma white_e2_facts:
  "gameId white_e2 = ''abc123''"
  "game white_e2 = \<lparr>c_fen = fen_start, c_history = []\<rparr>"
  "playerColor white_e2 = Some ''white''"
  "selectedSquare white_e2 = Some ''e2''"
  "movesList white_e2 = []"
  "emitted white_e2 = [JoinGame ''abc123'']"
  "uncaught white_e2 = []"
  by (simp_all add: white_e2_eq white_joined_facts)

lemma white_e2_clickable: "clickable chess white_e2"
  by (simp add: clickable_def white_e2_facts turns positions_differ)

lemma white_e2_e4:
  "e_move chess ''e2'' ''e4'' (CHR ''q'') (game white_e2) =
     Inr (Some (\<lparr>m_san = ''e4'', m_from = ''e2'', m_to = ''e4''\<rparr>,
           \<lparr>c_fen = fen_e4, c_history = [\<lparr>m_san = ''e4'', m_from = ''e2'', m_to = ''e4''\<rparr>]\<rparr>))"
  by (simp add: white_e2_facts table_moves)

lemma white_e2_d2:
  "e_move chess ''e2'' ''d2'' (CHR ''q'') (game white_e2) = Inl InvalidMove"
  "e_move chess ''e2'' ''e5'' (CHR ''q'') (game white_e2) = Inl InvalidMove"
  "friendly chess white_e2 ''white'' ''d2''"
  "\<not> friendly chess white_e2 ''white'' ''e5''"
  by (simp_all add: white_e2_facts table_moves friendly_def pieces)

lemma white_e2_throws:
  "handleSquareClick chess ''d2'' white_e2 = white_e2\<lparr>uncaught := [InvalidMove]\<rparr>"
  "handleSquareClick chess ''e5'' white_e2 = white_e2\<lparr>uncaught := [InvalidMove]\<rparr>"
  using click_throws [OF white_e2_clickable white_e2_facts(4) _ _ white_e2_d2(1)]
    click_throws [OF white_e2_clickable white_e2_facts(4) _ _ white_e2_d2(2)]
  by (simp_all add: white_e2_facts)

lemma white_e2_ok: "cursor_ok chess white_e2"
  by (simp add: cursor_ok_def white_e2_facts turns friendly_def pieces)

lemma white_e2_marked:
  "\<exists>e\<in>set (board white_e2). sq_square e = ''e4'' \<and> ''possible-move'' \<in> set (sq_classes e)"
proof -
  let ?r = "renderBoard chess (white_joined\<lparr>selectedSquare := Some ''e2''\<rparr>)"
  have "map (m_to \<circ> fst) (tableMoves fen_start ''e2'') = [''e3'', ''e4'']"
    by code_simp
  then have "map m_to (e_moves chess (game ?r) ''e2'') = [''e3'', ''e4'']"
    by (simp add: white_joined_facts)
  then have mv: "''e4'' \<in> set (map m_to (e_moves chess (game ?r) ''e2''))" by simp
  have marks: "\<forall>m\<in>set (e_moves chess (game ?r) ''e2''). \<forall>e\<in>set (board white_e2).
      sq_square e = m_to m \<longrightarrow> ''possible-move'' \<in> set (sq_classes e)"
    using foldl_marks [OF renderBoard_distinct, of "e_moves chess (game ?r) ''e2''"
        "''possible-move''" chess "white_joined\<lparr>selectedSquare := Some ''e2''\<rparr>"]
    unfolding white_e2_eq highlightPossibleMoves_def by simp
  have "map sq_square (board white_e2) = map sq_square (board ?r)"
    by (simp add: white_e2_eq highlightPossibleMoves_def)
  also have "''e4'' \<in> set \<dots>"
    by (subst names_white) (simp_all add: white_joined_facts)
  finally have sq: "''e4'' \<in> set (map sq_square (board white_e2))" .
  show ?thesis by (rule marked_square [OF marks mv sq])
qed

lemma white_e4_facts:
  "gameId white_e4 = ''abc123''"
  "game white_e4 =
     \<lparr>c_fen = fen_e4, c_history = [\<lparr>m_san = ''e4'', m_from = ''e2'', m_to = ''e4''\<rparr>]\<rparr>"
  "playerColor white_e4 = Some ''white''"
  "selectedSquare white_e4 = None"
  "movesList white_e4 = [''1. e4 '']"
  unfolding white_e4_def
    click_accepted [OF white_e2_clickable white_e2_facts(4) _ _ white_e2_e4, simplified]
  by (simp_all add: white_e2_facts updateMovesList_def move_items)

lemma white_info_facts:
  "gameId white_info = ''abc123''"
  "game white_info = \<lparr>c_fen = fen_e4_e5, c_history = []\<rparr>"
  "playerColor white_info = Some ''white''"
  "selectedSquare white_info = None"
  "movesList white_info = [''1. e4 '']"
  by (simp_all add: white_info_def white_e4_facts fens_nonempty)

lemma white_info_clickable: "clickable chess white_info"
  by (simp add: clickable_def white_info_facts turns positions_differ)

lemma white_g1_eq:
  "white_g1 =
     highlightPossibleMoves chess ''g1'' (renderBoard chess (white_info\<lparr>selectedSquare := Some ''g1''\<rparr>))"
  unfolding white_g1_def
  using click_select [OF white_info_clickable, of "''white''" "''g1''"]
  by (simp add: white_info_facts friendly_def pieces)

lemma white_g1_facts:
  "gameId white_g1 = ''abc123''"
  "game white_g1 = \<lparr>c_fen = fen_e4_e5, c_history = []\<rparr>"
  "playerColor white_g1 = Some ''white''"
  "selectedSquare white_g1 = Some ''g1''"
  "movesList white_g1 = [''1. e4 '']"
  by (simp_all add: white_g1_eq white_info_facts)

lemma white_g1_clickable: "clickable chess white_g1"
  by (simp add: clickable_def white_g1_facts turns positions_differ)

lemma white_g1_f3:
  "e_move chess ''g1'' ''f3'' (CHR ''q'') (game white_g1) =
     Inr (Some (\<lparr>m_san = ''Nf3'', m_from = ''g1'', m_to = ''f3''\<rparr>,
           \<lparr>c_fen = ''rnbqkbnr/pppp1ppp/8/4p3/4P3/5N2/PPPP1PPP/RNBQKB1R b KQkq - 1 2'',
             c_history = [\<lparr>m_san = ''Nf3'', m_from = ''g1'', m_to = ''f3''\<rparr>]\<rparr>))"
  by (simp add: white_g1_facts table_moves)

lemma white_e2_pushed_facts:
  "game white_e2_pushed = \<lparr>c_fen = fen_e4, c_history = []\<rparr>"
  "playerColor white_e2_pushed = Some ''white''"
  "selectedSquare white_e2_pushed = Some ''e2''"
  by (simp_all add: white_e2_pushed_def white_e2_facts)

lemma white_e2_pushed_ignores: "\<not> clickable chess white_e2_pushed"
  by (simp add: clickable_def white_e2_pushed_facts turns)

lemma black_to_mate_facts:
  "game black_to_mate = \<lparr>c_fen = fen_f3_e5_g4, c_history = []\<rparr>"
  "playerColor black_to_mate = Some ''black''"
  "selectedSquare black_to_mate = None"
  by (simp_all add: black_to_mate_def black_joined_def initial_def)

lemma black_to_mate_clickable: "clickable chess black_to_mate"
  by (simp add: clickable_def black_to_mate_facts turns positions_differ)

lemma black_d8_eq:
  "black_d8 =
     highlightPossibleMoves chess ''d8'' (renderBoard chess (black_to_mate\<lparr>selectedSquare := Some ''d8''\<rparr>))"
  unfolding black_d8_def
  using click_select [OF black_to_mate_clickable, of "''black''" "''d8''"]
  by (simp add: black_to_mate_facts friendly_def pieces)

lemma black_d8_facts:
  "game black_d8 = \<lparr>c_fen = fen_f3_e5_g4, c_history = []\<rparr>"
  "playerColor black_d8 = Some ''black''"
  "selectedSquare black_d8 = Some ''d8''"
  by (simp_all add: black_d8_eq black_to_mate_facts)

lemma black_d8_clickable: "clickable chess black_d8"
  by (simp add: clickable_def black_d8_facts turns positions_differ)

lemma black_d8_h4:
  "e_move chess ''d8'' ''h4'' (CHR ''q'') (game black_d8) =
     Inr (Some (\<lparr>m_san = ''Qh4#'', m_from = ''d8'', m_to = ''h4''\<rparr>,
           \<lparr>c_fen = fen_mated, c_history = [\<lparr>m_san = ''Qh4#'', m_from = ''d8'', m_to = ''h4''\<rparr>]\<rparr>))"
  by (simp add: black_d8_facts table_moves)

lemma white_stalemate_game: "game white_stalemate = \<lparr>c_fen = fen_stalemate, c_history = []\<rparr>"
  by (simp add: white_stalemate_def)

section \<open>The claims\<close>

text \<open>
  C1. The claim: the status line of a finished game carries the caption the engine's
  terminal predicates give, and after a local move that mates, the checkmate caption and
  not the side to move. On the fragment, Black (to move after 1. f3 e5 2. g4, with d8
  selected) clicks h4: the engine accepts Qh4 and reports checkmate, checkGameStatus
  writes the checkmate caption, and the call of updateGameStatus with 'active' that
  follows replaces it by the caption of the side to move. The move broadcast handler,
  which ends with checkGameStatus, shows the checkmate caption for the same position.
\<close>

theorem mating_move_shows_side_to_move:
  "clickable chess black_d8 \<and> selectedSquare black_d8 = Some ''d8'' \<and>
   e_move chess ''d8'' ''h4'' (CHR ''q'') (game black_d8) =
     Inr (Some (\<lparr>m_san = ''Qh4#'', m_from = ''d8'', m_to = ''h4''\<rparr>,
           \<lparr>c_fen = fen_mated, c_history = [\<lparr>m_san = ''Qh4#'', m_from = ''d8'', m_to = ''h4''\<rparr>]\<rparr>)) \<and>
   e_isCheckmate chess (game (handleSquareClick chess ''h4'' black_d8)) \<and>
   gameStatus (handleSquareClick chess ''h4'' black_d8) = WhiteToMove \<and>
   gameStatus (move_made chess fen_mated white_joined) = MateBlackWon"
proof -
  have ne: "''d8'' \<noteq> []" "''h4'' \<noteq> ''d8''" by simp_all
  have "game (handleSquareClick chess ''h4'' black_d8) =
      \<lparr>c_fen = fen_mated, c_history = [\<lparr>m_san = ''Qh4#'', m_from = ''d8'', m_to = ''h4''\<rparr>]\<rparr>"
    by (rule accepted_game [OF black_d8_clickable black_d8_facts(3) ne black_d8_h4])
  then have mate: "e_isCheckmate chess (game (handleSquareClick chess ''h4'' black_d8))"
    by simp
  have shown: "gameStatus (handleSquareClick chess ''h4'' black_d8) = WhiteToMove"
    using accepted_status [OF black_d8_clickable black_d8_facts(3) ne black_d8_h4]
    by (simp add: turns)
  have sibling: "gameStatus (move_made chess fen_mated white_joined) = MateBlackWon"
    by (simp add: move_made_status checkGameStatus_def updateGameStatus_def turns)
  from mate shown sibling black_d8_clickable black_d8_facts(3) black_d8_h4
  show ?thesis by simp
qed

text \<open>
  C2. The claim: with the colour black the board is mirrored and a8 is rendered last of
  the 64 squares; with white, a8 is rendered first. The code does otherwise, for every
  engine and state: \<open>isFlipped\<close> reverses the ranks and reverses the files literal that
  is already written backwards, so with black a8 is the first square and h1 the last (the
  layout the claim gives to white), and with any other colour a1 is first, a8 is the
  57th and h8 the last.
\<close>

theorem a8_is_first_for_black_only:
  "length (board (renderBoard E s)) = 64 \<and>
   sq_square (board (renderBoard E s) ! (if playerColor s = Some ''black'' then 0 else 56)) = ''a8'' \<and>
   sq_square (hd (board (renderBoard E s))) = (if playerColor s = Some ''black'' then ''a8'' else ''a1'') \<and>
   sq_square (last (board (renderBoard E s))) = (if playerColor s = Some ''black'' then ''h1'' else ''h8'')"
proof (cases "playerColor s = Some ''black''")
  case True
  note n = names_black [OF True, of E]
  have len: "length (board (renderBoard E s)) = 64"
    using arg_cong [OF n, of length] by simp
  have ne: "board (renderBoard E s) \<noteq> []" using len by auto
  have "sq_square (board (renderBoard E s) ! 0) = ''a8''"
    using len by (simp add: nth_names n)
  moreover have "sq_square (hd (board (renderBoard E s))) = ''a8''"
    using arg_cong [OF n, of hd] ne by (simp add: hd_map)
  moreover have "sq_square (last (board (renderBoard E s))) = ''h1''"
    using arg_cong [OF n, of last] ne by (simp add: last_map)
  ultimately show ?thesis using True len by simp
next
  case False
  note n = names_white [OF False, of E]
  have len: "length (board (renderBoard E s)) = 64"
    using arg_cong [OF n, of length] by simp
  have ne: "board (renderBoard E s) \<noteq> []" using len by auto
  have "sq_square (board (renderBoard E s) ! 56) = ''a8''"
    using len by (simp add: nth_names n)
  moreover have "sq_square (hd (board (renderBoard E s))) = ''a1''"
    using arg_cong [OF n, of hd] ne by (simp add: hd_map)
  moreover have "sq_square (last (board (renderBoard E s))) = ''h8''"
    using arg_cong [OF n, of last] ne by (simp add: last_map)
  ultimately show ?thesis using False len by simp
qed

text \<open>
  C3, as amended. A click that is processed with a square S selected, on another square
  Q, and whose move the engine accepts (promotion to a queen requested): clears the
  selection; leaves the engine's new state as the position; rebuilds the move list from
  the engine's move history, one entry per pair of moves, so that it has half as many
  entries as the history has moves, rounded up; and sends one move event with the
  move's notation and the position string of the new state.
\<close>

theorem accepted_move_effects:
  assumes "clickable E s" and "selectedSquare s = Some S" and "S \<noteq> []" and "Q \<noteq> S"
    and "e_move E S Q (CHR ''q'') (game s) = Inr (Some (m, g'))"
  shows "selectedSquare (handleSquareClick E Q s) = None \<and>
         game (handleSquareClick E Q s) = g' \<and>
         movesList (handleSquareClick E Q s) = movesLoop (map m_san (e_history E g')) 0 \<and>
         length (movesList (handleSquareClick E Q s)) = (length (e_history E g') + 1) div 2 \<and>
         emitted (handleSquareClick E Q s) =
           emitted s @ [MakeMove (gameId s) (m_san m) (e_fen E g')]"
  unfolding click_accepted [OF assms]
  by (simp add: updateMovesList_def length_movesLoop)

text \<open>C3, on the fragment: White, with e2 selected, clicks e4.\<close>

theorem accepted_move_effects_witness:
  "clickable chess white_e2 \<and> selectedSquare white_e2 = Some ''e2'' \<and>
   e_move chess ''e2'' ''e4'' (CHR ''q'') (game white_e2) =
     Inr (Some (\<lparr>m_san = ''e4'', m_from = ''e2'', m_to = ''e4''\<rparr>,
           \<lparr>c_fen = fen_e4, c_history = [\<lparr>m_san = ''e4'', m_from = ''e2'', m_to = ''e4''\<rparr>]\<rparr>)) \<and>
   selectedSquare (handleSquareClick chess ''e4'' white_e2) = None \<and>
   movesList (handleSquareClick chess ''e4'' white_e2) = [''1. e4 ''] \<and>
   emitted (handleSquareClick chess ''e4'' white_e2) =
     [JoinGame ''abc123'', MakeMove ''abc123'' ''e4'' fen_e4]"
proof -
  have ne: "''e2'' \<noteq> []" "''e4'' \<noteq> ''e2''" by simp_all
  note t = accepted_move_effects [OF white_e2_clickable white_e2_facts(4) ne white_e2_e4]
  from t have "selectedSquare (handleSquareClick chess ''e4'' white_e2) = None"
    by blast
  moreover from t have "movesList (handleSquareClick chess ''e4'' white_e2) = [''1. e4 '']"
    by (simp add: move_items)
  moreover from t have "emitted (handleSquareClick chess ''e4'' white_e2) =
     [JoinGame ''abc123'', MakeMove ''abc123'' ''e4'' fen_e4]"
    by (simp add: white_e2_facts)
  ultimately show ?thesis
    using white_e2_clickable white_e2_facts(4) white_e2_e4 by blast
qed

text \<open>
  C3 as stated fails: the claim has every accepted move append one entry to the move
  list. White has played 1. e4 (the list holds one entry), has received the position
  after 1... e5 as game info, which does not touch the list, and has selected g1. The
  click on f3 is accepted, and the list holds one entry again, a different one.
\<close>

theorem stale_panel_counterexample:
  "clickable chess white_g1 \<and> selectedSquare white_g1 = Some ''g1'' \<and>
   e_move chess ''g1'' ''f3'' (CHR ''q'') (game white_g1) =
     Inr (Some (\<lparr>m_san = ''Nf3'', m_from = ''g1'', m_to = ''f3''\<rparr>,
           \<lparr>c_fen = ''rnbqkbnr/pppp1ppp/8/4p3/4P3/5N2/PPPP1PPP/RNBQKB1R b KQkq - 1 2'',
             c_history = [\<lparr>m_san = ''Nf3'', m_from = ''g1'', m_to = ''f3''\<rparr>]\<rparr>)) \<and>
   movesList white_g1 = [''1. e4 ''] \<and>
   movesList (handleSquareClick chess ''f3'' white_g1) = [''1. Nf3 '']"
proof -
  have "movesList (handleSquareClick chess ''f3'' white_g1) = [''1. Nf3 '']"
    unfolding click_accepted [OF white_g1_clickable white_g1_facts(4) _ _ white_g1_f3, simplified]
    by (simp add: updateMovesList_def move_items)
  then show ?thesis
    using white_g1_clickable white_g1_facts white_g1_f3 by simp
qed

text \<open>
  C4, as amended. With a square S selected, a click on S that is processed clears the
  selection, leaves no square marked as a possible move, and changes neither the position
  nor what was sent; a click on S that is not processed (no colour, not the local
  player's turn, or the game over) changes nothing.
\<close>

theorem reclick_deselects:
  assumes "selectedSquare s = Some S" and "S \<noteq> []"
  shows "(clickable E s \<longrightarrow>
            selectedSquare (handleSquareClick E S s) = None \<and>
            (\<forall>e\<in>set (board (handleSquareClick E S s)). ''possible-move'' \<notin> set (sq_classes e)) \<and>
            game (handleSquareClick E S s) = game s \<and>
            emitted (handleSquareClick E S s) = emitted s) \<and>
         (\<not> clickable E s \<longrightarrow> handleSquareClick E S s = s)"
proof (cases "clickable E s")
  case True
  show ?thesis
    unfolding click_deselect [OF True assms]
    using True renderBoard_no_possible_move [of E "s\<lparr>selectedSquare := None\<rparr>"]
    by simp
next
  case False
  then show ?thesis by (simp add: click_ignored)
qed

text \<open>
  C4, on the fragment: White, with e2 selected and its destinations marked, clicks e2
  again; and the same click after a move broadcast has made it Black's turn.
\<close>

theorem reclick_deselects_witness:
  "clickable chess white_e2 \<and> selectedSquare white_e2 = Some ''e2'' \<and>
   (\<exists>e\<in>set (board white_e2). ''possible-move'' \<in> set (sq_classes e)) \<and>
   selectedSquare (handleSquareClick chess ''e2'' white_e2) = None \<and>
   \<not> (\<exists>e\<in>set (board (handleSquareClick chess ''e2'' white_e2)).
        ''possible-move'' \<in> set (sq_classes e)) \<and>
   game (handleSquareClick chess ''e2'' white_e2) = game white_e2 \<and>
   emitted (handleSquareClick chess ''e2'' white_e2) = emitted white_e2 \<and>
   \<not> clickable chess white_e2_pushed \<and> selectedSquare white_e2_pushed = Some ''e2'' \<and>
   handleSquareClick chess ''e2'' white_e2_pushed = white_e2_pushed"
proof -
  have ne: "''e2'' \<noteq> []" by simp
  note t = reclick_deselects [OF white_e2_facts(4) ne, of chess]
  note u = reclick_deselects [OF white_e2_pushed_facts(3) ne, of chess]
  from white_e2_marked have "\<exists>e\<in>set (board white_e2). ''possible-move'' \<in> set (sq_classes e)"
    by blast
  with t u white_e2_clickable white_e2_facts(4) white_e2_pushed_ignores white_e2_pushed_facts(3)
  show ?thesis by blast
qed

text \<open>
  C4 as stated fails: the claim is for every state with a square selected. White has
  selected e2 and a move broadcast with the position after 1. e4 has arrived; it is
  Black's turn, the click on e2 is ignored and e2 stays selected.
\<close>

theorem reclick_ignored_counterexample:
  "selectedSquare white_e2_pushed = Some ''e2'' \<and>
   selectedSquare (handleSquareClick chess ''e2'' white_e2_pushed) = Some ''e2''"
  by (simp add: click_ignored [OF white_e2_pushed_ignores] white_e2_pushed_facts)

text \<open>
  C5. The claim: a click that completes a move attempt which the engine rejects selects
  the clicked square Q when it holds a piece of the local player's colour and clears the
  selection otherwise, renders the board anew and marks the destinations of Q; the
  position is unchanged and nothing is sent. The else branch of handleSquareClick does
  this for a move that returns a falsy value (\<open>click_rejected\<close>), but the library whose
  methods the script calls throws on an illegal move and nothing catches the error. On
  the fragment, White has e2 selected and clicks d2, an own pawn (and, instead, e5, an
  empty square): the move throws, the handler stops, e2 stays selected and the board is
  the one shown before, with the destinations of e2 still marked. Only the last part of
  the claim holds: the position is unchanged and nothing is sent.
\<close>

theorem illegal_move_keeps_selection:
  "clickable chess white_e2 \<and> selectedSquare white_e2 = Some ''e2'' \<and>
   friendly chess white_e2 ''white'' ''d2'' \<and>
   e_move chess ''e2'' ''d2'' (CHR ''q'') (game white_e2) = Inl InvalidMove \<and>
   handleSquareClick chess ''d2'' white_e2 = white_e2\<lparr>uncaught := [InvalidMove]\<rparr> \<and>
   selectedSquare (handleSquareClick chess ''d2'' white_e2) = Some ''e2'' \<and>
   board (handleSquareClick chess ''d2'' white_e2) = board white_e2 \<and>
   (\<exists>e\<in>set (board (handleSquareClick chess ''d2'' white_e2)).
      sq_square e = ''e4'' \<and> ''possible-move'' \<in> set (sq_classes e)) \<and>
   game (handleSquareClick chess ''d2'' white_e2) = game white_e2 \<and>
   emitted (handleSquareClick chess ''d2'' white_e2) = emitted white_e2 \<and>
   \<not> friendly chess white_e2 ''white'' ''e5'' \<and>
   e_move chess ''e2'' ''e5'' (CHR ''q'') (game white_e2) = Inl InvalidMove \<and>
   selectedSquare (handleSquareClick chess ''e5'' white_e2) = Some ''e2''"
proof -
  have d2: "selectedSquare (handleSquareClick chess ''d2'' white_e2) = Some ''e2''"
    "board (handleSquareClick chess ''d2'' white_e2) = board white_e2"
    "game (handleSquareClick chess ''d2'' white_e2) = game white_e2"
    "emitted (handleSquareClick chess ''d2'' white_e2) = emitted white_e2"
    by (simp_all add: white_e2_throws white_e2_facts)
  have marked: "\<exists>e\<in>set (board (handleSquareClick chess ''d2'' white_e2)).
      sq_square e = ''e4'' \<and> ''possible-move'' \<in> set (sq_classes e)"
    unfolding d2(2) by (rule white_e2_marked)
  have e5: "selectedSquare (handleSquareClick chess ''e5'' white_e2) = Some ''e2''"
    by (simp add: white_e2_throws white_e2_facts)
  from white_e2_clickable white_e2_facts(4) white_e2_d2 white_e2_throws(1) d2 marked e5
  show ?thesis by blast
qed

text \<open>
  C6. The claim: a confirmed resignation changes the status line to a label of the
  resigned state and changes nothing else. The switch of updateGameStatus has no case
  'resigned': the click changes nothing at all, the status line included.
\<close>

theorem resign_changes_nothing: "resignClick E confirmed s = s"
  by (simp add: resignClick_def updateGameStatus_def)

text \<open>
  C7. On a create confirmation carrying \<open>game_id\<close> g the lobby sets the markup of
  \<open>#gameLink\<close> to the sentence followed by an anchor whose address and text are
  \<open><origin>/game/<g>\<close>, removes the class \<open>hidden\<close>, navigates nowhere yet, and adds
  one timer of 2000 ms whose callback assigns that same address to the location.
\<close>

theorem game_created_link:
  "gameLinkHTML (game_created g l) = linkMarkup (origin l @ ''/game/'' @ g) \<and>
   (\<exists>pre post. gameLinkHTML (game_created g l) =
      pre @ ''<a href='' @ [CHR 0x22] @ origin l @ ''/game/'' @ g @ [CHR 0x22] @
      '' target='' @ [CHR 0x22] @ ''_blank'' @ [CHR 0x22] @ ''>'' @
      origin l @ ''/game/'' @ g @ ''</a>'' @ post) \<and>
   ''hidden'' \<notin> set (gameLinkClasses (game_created g l)) \<and>
   timers (game_created g l) = timers l @ [(2000, origin l @ ''/game/'' @ g)] \<and>
   href (game_created g l) = href l \<and>
   href (timeout (2000, origin l @ ''/game/'' @ g) (game_created g l)) =
     Some (origin l @ ''/game/'' @ g)"
proof -
  let ?url = "origin l @ ''/game/'' @ g"
  have html: "gameLinkHTML (game_created g l) = linkMarkup ?url"
    by (simp add: game_created_def gameUrl_def Let_def)
  have "linkMarkup ?url =
      ([CHR 0x0A] @ ''        <p>'' @ created_text @ ''</p>'' @ [CHR 0x0A] @ ''        '') @
      ''<a href='' @ [CHR 0x22] @ origin l @ ''/game/'' @ g @ [CHR 0x22] @
      '' target='' @ [CHR 0x22] @ ''_blank'' @ [CHR 0x22] @ ''>'' @
      origin l @ ''/game/'' @ g @ ''</a>'' @ ([CHR 0x0A] @ ''    '')"
    by (simp add: linkMarkup_def)
  then have ex: "\<exists>pre post. gameLinkHTML (game_created g l) =
      pre @ ''<a href='' @ [CHR 0x22] @ origin l @ ''/game/'' @ g @ [CHR 0x22] @
      '' target='' @ [CHR 0x22] @ ''_blank'' @ [CHR 0x22] @ ''>'' @
      origin l @ ''/game/'' @ g @ ''</a>'' @ post"
    unfolding html by blast
  have rest: "''hidden'' \<notin> set (gameLinkClasses (game_created g l))"
    "timers (game_created g l) = timers l @ [(2000, ?url)]"
    "href (game_created g l) = href l"
    "href (timeout (2000, ?url) (game_created g l)) = Some ?url"
    by (simp_all add: game_created_def gameUrl_def Let_def timeout_def)
  from html ex rest show ?thesis by blast
qed

text \<open>
  C8. The join operation trims the input: the input is white space characters, then a
  text that neither begins nor ends with a white space character, then white space
  characters again. When that text is empty the operation adds the alert and changes
  nothing else (no navigation); otherwise it assigns the text, whatever it is, behind
  \<open>/game/\<close> to the location and changes nothing else.
\<close>

theorem joinGameClick_trims:
  "\<exists>ps core qs.
     set ps \<subseteq> set whitespace \<and> set qs \<subseteq> set whitespace \<and>
     gameIdInput l = concat ps @ core @ concat qs \<and>
     (\<forall>w\<in>set whitespace. \<forall>x. core \<noteq> w @ x \<and> core \<noteq> x @ w) \<and>
     joinGameClick l =
       (if core = [] then l\<lparr>alerts := alerts l @ [enter_id_text]\<rparr>
        else l\<lparr>href := Some (''/game/'' @ core)\<rparr>)"
proof -
  obtain ps qs where t: "set ps \<subseteq> set whitespace" "set qs \<subseteq> set whitespace"
    "gameIdInput l = concat ps @ trim (gameIdInput l) @ concat qs"
    "\<forall>w\<in>set whitespace. \<forall>x. trim (gameIdInput l) \<noteq> w @ x \<and> trim (gameIdInput l) \<noteq> x @ w"
    using trim_spec [of "gameIdInput l"] by blast
  have "joinGameClick l =
       (if trim (gameIdInput l) = [] then l\<lparr>alerts := alerts l @ [enter_id_text]\<rparr>
        else l\<lparr>href := Some (''/game/'' @ trim (gameIdInput l))\<rparr>)"
    by (simp add: joinGameClick_def Let_def)
  with t show ?thesis by blast
qed

text \<open>
  C8, on an identifier typed between blanks (a blank before it, the identifier, a blank
  after it) and on a blank input.
\<close>

theorem joinGameClick_trims_witness:
  "(\<exists>ps core qs.
     set ps \<subseteq> set whitespace \<and> set qs \<subseteq> set whitespace \<and>
     gameIdInput lobby_typed = concat ps @ core @ concat qs \<and>
     (\<forall>w\<in>set whitespace. \<forall>x. core \<noteq> w @ x \<and> core \<noteq> x @ w) \<and>
     joinGameClick lobby_typed =
       (if core = [] then lobby_typed\<lparr>alerts := alerts lobby_typed @ [enter_id_text]\<rparr>
        else lobby_typed\<lparr>href := Some (''/game/'' @ core)\<rparr>)) \<and>
   '' '' \<in> set whitespace \<and>
   gameIdInput lobby_typed = concat ['' ''] @ ''abc123'' @ concat ['' ''] \<and>
   joinGameClick lobby_typed = lobby_typed\<lparr>href := Some ''/game/abc123''\<rparr> \<and>
   joinGameClick (lobby_typed\<lparr>gameIdInput := '' ''\<rparr>) =
     lobby_typed\<lparr>gameIdInput := '' '', alerts := [enter_id_text]\<rparr>"
proof -
  have a: "gameIdInput lobby_typed = '' abc123 ''" "alerts lobby_typed = []"
    by (simp_all add: lobby_typed_def)
  have sp: "'' '' \<in> set whitespace"
    by code_simp
  have typed: "joinGameClick lobby_typed = lobby_typed\<lparr>href := Some ''/game/abc123''\<rparr>"
    by (simp add: joinGameClick_def Let_def a trims)
  have blank: "joinGameClick (lobby_typed\<lparr>gameIdInput := '' ''\<rparr>) =
     lobby_typed\<lparr>gameIdInput := '' '', alerts := [enter_id_text]\<rparr>"
    by (simp add: joinGameClick_def Let_def a trims)
  have parts: "gameIdInput lobby_typed = concat ['' ''] @ ''abc123'' @ concat ['' '']"
    by (simp add: a)
  from joinGameClick_trims [of lobby_typed] sp parts typed blank show ?thesis by blast
qed

text \<open>
  C9, as amended. The cursor invariant (a selected square holds a piece of the local
  player's colour, and it is that player's turn) is preserved by every click, by the
  handlers of an opponent joining and of an opponent disconnecting, and by the resign
  button.
\<close>

theorem clicks_keep_cursor_ok:
  assumes "cursor_ok E s"
  shows "cursor_ok E (handleSquareClick E q s) \<and>
         cursor_ok E (player_joined E s) \<and>
         cursor_ok E (player_disconnected E s) \<and>
         cursor_ok E (resignClick E confirmed s)"
proof -
  have click: "cursor_ok E (handleSquareClick E q s)"
  proof (cases "clickable E s")
    case False
    then show ?thesis using assms by (simp add: click_ignored)
  next
    case True
    then obtain color where color: "playerColor s = Some color"
      by (auto simp: clickable_def split: option.splits)
    show ?thesis
    proof (cases "truthy (selectedSquare s)")
      case False
      show ?thesis
        unfolding click_select [OF True color False]
        using assms by (auto intro!: cursor_ok_select [OF True color])
    next
      case sel: True
      then obtain S where S: "selectedSquare s = Some S" "S \<noteq> []"
        by (cases "selectedSquare s") auto
      show ?thesis
      proof (cases "q = S")
        case True
        then show ?thesis
          using click_deselect [OF \<open>clickable E s\<close> S] by (simp add: cursor_ok_None)
      next
        case False
        show ?thesis
        proof (cases "e_move E S q (CHR ''q'') (game s)")
          case (Inl err)
          have "cursor_ok E (s\<lparr>uncaught := uncaught s @ [err]\<rparr>) = cursor_ok E s"
            by (rule cursor_ok_cong) simp_all
          then show ?thesis
            unfolding click_throws [OF \<open>clickable E s\<close> S False Inl] using assms by simp
        next
          case (Inr r)
          show ?thesis
          proof (cases r)
            case (Some p)
            obtain m g' where "p = (m, g')" by (cases p)
            with Some Inr have mv: "e_move E S q (CHR ''q'') (game s) = Inr (Some (m, g'))"
              by simp
            show ?thesis
              unfolding click_accepted [OF \<open>clickable E s\<close> S False mv]
              by (simp add: cursor_ok_None)
          next
            case None
            with Inr have falsy: "e_move E S q (CHR ''q'') (game s) = Inr None" by simp
            note f = click_rejected_fields [OF True color S False falsy]
            have sel': "selectedSquare (handleSquareClick E q s) =
                (if friendly E s color q then Some q else None)"
              and same: "playerColor (handleSquareClick E q s) = playerColor s"
                "game (handleSquareClick E q s) = game s"
              using f by blast+
            show ?thesis
            proof (cases "friendly E s color q")
              case True
              show ?thesis
                by (rule cursor_ok_select [OF \<open>clickable E s\<close> color True])
                  (simp_all add: sel' same True)
            next
              case False
              then show ?thesis using sel' by (simp add: cursor_ok_None)
            qed
          qed
        qed
      qed
    qed
  qed
  have "cursor_ok E (player_joined E s) = cursor_ok E s"
    by (rule cursor_ok_cong) (simp_all add: player_joined_def)
  moreover have "cursor_ok E (player_disconnected E s) = cursor_ok E s"
    by (rule cursor_ok_cong) (simp_all add: player_disconnected_def)
  moreover have "cursor_ok E (resignClick E confirmed s) = cursor_ok E s"
    by (rule cursor_ok_cong) (simp_all add: resignClick_def)
  ultimately have others: "cursor_ok E (player_joined E s)" "cursor_ok E (player_disconnected E s)"
    "cursor_ok E (resignClick E confirmed s)"
    using assms by blast+
  from click others show ?thesis by blast
qed

text \<open>
  C9, on the fragment: White clicks e2 and the cursor is set; with e2 selected, White
  clicks d2 (the move throws and the cursor stays) or e4 (the move is made and the
  cursor is cleared), an opponent joins or disconnects, or White resigns.
\<close>

theorem clicks_keep_cursor_ok_witness:
  "cursor_ok chess white_joined \<and>
   selectedSquare (handleSquareClick chess ''e2'' white_joined) = Some ''e2'' \<and>
   cursor_ok chess (handleSquareClick chess ''e2'' white_joined) \<and>
   cursor_ok chess white_e2 \<and>
   selectedSquare (handleSquareClick chess ''d2'' white_e2) = Some ''e2'' \<and>
   cursor_ok chess (handleSquareClick chess ''d2'' white_e2) \<and>
   cursor_ok chess (handleSquareClick chess ''e4'' white_e2) \<and>
   cursor_ok chess (player_joined chess white_e2) \<and>
   cursor_ok chess (player_disconnected chess white_e2) \<and>
   cursor_ok chess (resignClick chess True white_e2)"
proof -
  have none: "cursor_ok chess white_joined"
    by (simp add: cursor_ok_None white_joined_facts)
  have sel: "selectedSquare (handleSquareClick chess ''e2'' white_joined) = Some ''e2''"
    using white_e2_facts(4) by (simp add: white_e2_def)
  have stays: "selectedSquare (handleSquareClick chess ''d2'' white_e2) = Some ''e2''"
    by (simp add: white_e2_throws white_e2_facts)
  from none sel stays white_e2_ok
    clicks_keep_cursor_ok [OF none, of "''e2''" True]
    clicks_keep_cursor_ok [OF white_e2_ok, of "''d2''" True]
    clicks_keep_cursor_ok [OF white_e2_ok, of "''e4''" True]
  show ?thesis by blast
qed

text \<open>
  C9 as stated fails: the claim is for every server push as well. With e2 selected by
  White, a move broadcast or a game info carrying the position after 1. e4, and a join
  confirmation carrying the colour black, each leave e2 selected while the invariant no
  longer holds.
\<close>

theorem pushes_break_cursor_ok_counterexample:
  "cursor_ok chess white_e2 \<and>
   \<not> cursor_ok chess (move_made chess fen_e4 white_e2) \<and>
   \<not> cursor_ok chess
       (game_info chess \<lparr>d_fen = Some fen_e4, d_color = None, d_status = None\<rparr> white_e2) \<and>
   \<not> cursor_ok chess (game_joined chess (Some ''black'') white_e2)"
proof -
  have "\<not> cursor_ok chess (move_made chess fen_e4 white_e2)"
    by (simp add: cursor_ok_def white_e2_facts turns)
  moreover have "\<not> cursor_ok chess
       (game_info chess \<lparr>d_fen = Some fen_e4, d_color = None, d_status = None\<rparr> white_e2)"
    by (simp add: cursor_ok_def white_e2_facts turns fens_nonempty)
  moreover have "\<not> cursor_ok chess (game_joined chess (Some ''black'') white_e2)"
    by (simp add: cursor_ok_def white_e2_facts turns)
  ultimately show ?thesis using white_e2_ok by blast
qed

text \<open>
  C10. checkGameStatus tests checkmate, then draw, then stalemate. No position is both a
  checkmate and a stalemate; for such an engine, a position that is both a draw and a
  stalemate gets the draw caption, and the status line becomes the stalemate caption only
  when the position is a stalemate and not a draw.
\<close>

theorem checkGameStatus_order:
  assumes "\<not> (e_isCheckmate E (game s) \<and> e_isStalemate E (game s))"
  shows "gameStatus (checkGameStatus E s) =
           (if e_isCheckmate E (game s)
            then (if e_turn E (game s) = CHR ''w'' then MateBlackWon else MateWhiteWon)
            else if e_isDraw E (game s) then DrawCaption
            else if e_isStalemate E (game s) then StalemateCaption
            else gameStatus s) \<and>
         (e_isDraw E (game s) \<and> e_isStalemate E (game s)
            \<longrightarrow> gameStatus (checkGameStatus E s) = DrawCaption) \<and>
         (gameStatus (checkGameStatus E s) = StalemateCaption \<and> gameStatus s \<noteq> StalemateCaption
            \<longrightarrow> e_isStalemate E (game s) \<and> \<not> e_isDraw E (game s))"
  using assms by (auto simp: checkGameStatus_def updateGameStatus_def split: if_splits)

text \<open>
  C10, on the fragment: a stalemate, which the library counts as a draw as well, gets
  the draw caption; with the draw predicate that leaves stalemates out, it gets the
  stalemate caption.
\<close>

theorem checkGameStatus_order_witness:
  "\<not> (e_isCheckmate chess (game white_stalemate) \<and> e_isStalemate chess (game white_stalemate)) \<and>
   e_isDraw chess (game white_stalemate) \<and> e_isStalemate chess (game white_stalemate) \<and>
   gameStatus (checkGameStatus chess white_stalemate) = DrawCaption \<and>
   gameStatus (white_joined\<lparr>game := \<lparr>c_fen = fen_stalemate, c_history = []\<rparr>\<rparr>) \<noteq> StalemateCaption \<and>
   gameStatus (checkGameStatus chess_plain_draw
      (white_joined\<lparr>game := \<lparr>c_fen = fen_stalemate, c_history = []\<rparr>\<rparr>)) = StalemateCaption \<and>
   e_isStalemate chess_plain_draw \<lparr>c_fen = fen_stalemate, c_history = []\<rparr> \<and>
   \<not> e_isDraw chess_plain_draw \<lparr>c_fen = fen_stalemate, c_history = []\<rparr>"
proof -
  let ?s = "white_joined\<lparr>game := \<lparr>c_fen = fen_stalemate, c_history = []\<rparr>\<rparr>"
  have h1: "\<not> (e_isCheckmate chess (game white_stalemate) \<and>
      e_isStalemate chess (game white_stalemate))"
    by (simp add: white_stalemate_game positions_differ)
  have h2: "e_isDraw chess (game white_stalemate) \<and> e_isStalemate chess (game white_stalemate)"
    by (simp add: white_stalemate_game)
  have c1: "gameStatus (checkGameStatus chess white_stalemate) = DrawCaption"
    using checkGameStatus_order [OF h1] h2 by blast
  have h3: "\<not> (e_isCheckmate chess_plain_draw (game ?s) \<and> e_isStalemate chess_plain_draw (game ?s))"
    by (simp add: positions_differ)
  have before: "gameStatus ?s \<noteq> StalemateCaption"
    by (simp add: white_joined_facts)
  have after: "gameStatus (checkGameStatus chess_plain_draw ?s) = StalemateCaption"
    by (simp add: checkGameStatus_def updateGameStatus_def positions_differ)
  have c2: "e_isStalemate chess_plain_draw (game ?s) \<and> \<not> e_isDraw chess_plain_draw (game ?s)"
    using checkGameStatus_order [OF h3] before after by blast
  from h1 h2 c1 before after c2 show ?thesis by simp
qed

end
